theory Spec2Isabelle
  imports Main "HOL-Library.Sublist"
begin

section \<open>The Encrypt handler of the GPG secrets engine (gpg/path\_encrypt.go)\<close>

text \<open>
  The development embeds \<^verbatim>\<open>pathEncryptWrite\<close> of \<^verbatim>\<open>src/gpg/path_encrypt.go\<close>.
  The handler is glue code over the Go standard library, the OpenPGP library
  (\<^verbatim>\<open>golang.org/x/crypto/openpgp\<close>) and two methods of the backend
  (\<^verbatim>\<open>b.key\<close>, \<^verbatim>\<open>b.entity\<close>) whose bodies are not part of the sources. Every such
  callee is a parameter of the model: a field of the record \<open>library\<close> or of the
  record \<open>backend\<close>. A Go call returning \<^verbatim>\<open>(v, err)\<close> is a pair whose second
  component is an \<open>error option\<close> (\<open>None\<close> is Go's \<^verbatim>\<open>nil\<close>).
\<close>

subsection \<open>Values\<close>

type_synonym bytes = string

text \<open>Go \<^verbatim>\<open>error\<close> values: \<^verbatim>\<open>logical.ErrInvalidRequest\<close> and errors made by
  a callee, which carry their message.\<close>

datatype error = ErrInvalidRequest | Err string

fun Error :: "error \<Rightarrow> string" where
  "Error ErrInvalidRequest = ''invalid request''"
| "Error (Err msg) = msg"

text \<open>\<^verbatim>\<open>logical.Response\<close>: only its \<^verbatim>\<open>Data\<close> map is used here.
  \<^verbatim>\<open>logical.ErrorResponse(text)\<close> is the response whose data is \<^verbatim>\<open>{"error": text}\<close>.\<close>

record response =
  Data :: "string \<rightharpoonup> string"

definition ErrorResponse :: "string \<Rightarrow> response" where
  "ErrorResponse text = \<lparr>Data = [''error'' \<mapsto> text]\<rparr>"

definition IsError :: "response \<Rightarrow> bool" where
  "IsError r = (Data r ''error'' \<noteq> None)"

text \<open>What a call of the handler ends in: its two results, or a run-time panic.\<close>

datatype panic = IndexOutOfRange | NilDereference

datatype outcome = Return "response option" "error option" | Panic panic

text \<open>\<^verbatim>\<open>crypto.Hash\<close> (the four values the handler uses) and
  \<^verbatim>\<open>packet.Config\<close>, whose zero value has no default hash.\<close>

datatype crypto_Hash = SHA224 | SHA256 | SHA384 | SHA512

record packet_Config =
  DefaultHash :: "crypto_Hash option"

subsection \<open>Request fields (lines 19--65)\<close>

text \<open>\<^verbatim>\<open>framework.FieldSchema\<close>: every field of this path has type string; only
  the default differs. \<^verbatim>\<open>pathEncrypt_Fields\<close> is the \<^verbatim>\<open>Fields\<close> map of
  \<^verbatim>\<open>pathEncrypt\<close>.\<close>

record fieldSchema =
  Default :: "string option"

definition pathEncrypt_Fields :: "(string \<times> fieldSchema) list" where
  "pathEncrypt_Fields =
    [(''name'', \<lparr>Default = None\<rparr>),
     (''plaintext'', \<lparr>Default = None\<rparr>),
     (''urlalgorithm'', \<lparr>Default = None\<rparr>),
     (''algorithm'', \<lparr>Default = Some ''sha2-256''\<rparr>),
     (''format'', \<lparr>Default = Some ''base64''\<rparr>),
     (''recipient_key'', \<lparr>Default = None\<rparr>)]"

text \<open>\<^verbatim>\<open>framework.FieldData\<close>: the raw request fields and the schema of the path.
  \<^verbatim>\<open>data.Get(k)\<close> is the raw value when the request has one, else the default of
  the schema, else the zero value of the type, the empty string. (The Go method
  panics for a field that is not in the schema; the handler reads only the six
  fields above.)\<close>

record fieldData =
  Raw :: "string \<rightharpoonup> string"
  Schema :: "(string \<times> fieldSchema) list"

definition DefaultOrZero :: "fieldSchema \<Rightarrow> string" where
  "DefaultOrZero fs = (case Default fs of Some d \<Rightarrow> d | None \<Rightarrow> [])"

definition Get :: "fieldData \<Rightarrow> string \<Rightarrow> string" where
  "Get data k =
    (case Raw data k of
       Some v \<Rightarrow> v
     | None \<Rightarrow> (case map_of (Schema data) k of Some fs \<Rightarrow> DefaultOrZero fs | None \<Rightarrow> []))"

text \<open>The field data the framework hands to the handler for a request with the raw
  fields \<open>raw\<close>.\<close>

definition requestData :: "(string \<rightharpoonup> string) \<Rightarrow> fieldData" where
  "requestData raw = \<lparr>Raw = raw, Schema = pathEncrypt_Fields\<rparr>"

subsection \<open>Storage and the backend\<close>

text \<open>The key record of the specification's data model (section 3).\<close>

record generationParams =
  realName :: string
  email :: string
  keyBits :: nat

record keyRecord =
  recordName :: string
  serializedKey :: bytes
  generationParams :: generationParams
  createdAt :: nat

text \<open>The host's storage: the stored key records by path, and whether the store is
  failing (every operation then returns that error).\<close>

record storage =
  records :: "string \<rightharpoonup> keyRecord"
  failing :: "error option"

datatype storageOp = StorageGet string | StoragePut string | StorageDelete string | StorageList string

text \<open>The two backend methods the handler calls. Their bodies are not in the
  sources, so they are parameters: \<open>backend_key\<close> (\<^verbatim>\<open>b.key\<close>) receives the
  storage and may use it, returning the storage it leaves and the operations it
  performed on it; \<open>backend_entity\<close> (\<^verbatim>\<open>b.entity\<close>) receives only the key entry.\<close>

record 'ent backend =
  backend_key :: "storage \<Rightarrow> string \<Rightarrow> (keyRecord option \<times> error option) \<times> storage \<times> storageOp list"
  backend_entity :: "keyRecord \<Rightarrow> 'ent option \<times> error option"

text \<open>Modelled from the spec: \<^verbatim>\<open>b.key\<close> is the lookup of the KeyStore, section 4.1:
  \<^verbatim>\<open>get(ctx, name) -> KeyRecord|absent\<close>, a proxy to the storage collaborator keyed
  by the path \<^verbatim>\<open>keys/<name>\<close>; a storage failure is propagated as an error, an absent
  key is no error.\<close>

definition KeyStore_get :: "storage \<Rightarrow> string \<Rightarrow> (keyRecord option \<times> error option) \<times> storage \<times> storageOp list" where
  "KeyStore_get s nm =
    (let path = ''keys/'' @ nm in
     case failing s of
       Some e \<Rightarrow> ((None, Some e), s, [StorageGet path])
     | None \<Rightarrow> ((records s path, None), s, [StorageGet path]))"

subsection \<open>The libraries\<close>

text \<open>
  The callees of the standard library and of the OpenPGP library. A writer is a
  state machine: \<^verbatim>\<open>Write\<close> and \<^verbatim>\<open>Close\<close> take its state and return the bytes it
  writes to the writer underneath (all a Go \<^verbatim>\<open>io.Writer\<close> lets it do), the next
  state and the error.
  \<^item> \<open>base64_DecodeString\<close>: \<^verbatim>\<open>base64.StdEncoding.DecodeString\<close>;
  \<^item> \<open>openpgp_ReadArmoredKeyRing\<close>: \<^verbatim>\<open>openpgp.ReadArmoredKeyRing\<close> on the text;
  \<^item> \<open>armor_Encode blockType headers\<close>: \<^verbatim>\<open>armor.Encode(out, blockType, headers)\<close>,
    the bytes written to \<^verbatim>\<open>out\<close> at once and the encoder;
  \<^item> \<open>base64_NewEncoder\<close>: \<^verbatim>\<open>base64.NewEncoder(base64.StdEncoding, out)\<close>, which
    writes nothing;
  \<^item> \<open>openpgp_Encrypt to signed config\<close>: \<^verbatim>\<open>openpgp.Encrypt(ciphertext, to, signed,
    nil, config)\<close>, the chunks written to \<^verbatim>\<open>ciphertext\<close> and the plaintext writer
    \<^verbatim>\<open>w\<close>; \<open>plaintext_Write\<close> and \<open>plaintext_Close\<close> are its two methods.
  The library's source of randomness is part of the parameter.
\<close>

record ('ent, 'a, 'b, 'c) library =
  base64_DecodeString :: "string \<Rightarrow> bytes \<times> error option"
  openpgp_ReadArmoredKeyRing :: "string \<Rightarrow> 'ent list \<times> error option"
  armor_Encode :: "string \<Rightarrow> (string \<times> string) list \<Rightarrow> bytes \<times> 'a \<times> error option"
  armor_Write :: "'a \<Rightarrow> bytes \<Rightarrow> bytes \<times> 'a \<times> error option"
  armor_Close :: "'a \<Rightarrow> bytes \<times> error option"
  base64_NewEncoder :: "'b"
  base64_Write :: "'b \<Rightarrow> bytes \<Rightarrow> bytes \<times> 'b \<times> error option"
  base64_Close :: "'b \<Rightarrow> bytes \<times> error option"
  openpgp_Encrypt :: "'ent list \<Rightarrow> 'ent option \<Rightarrow> packet_Config \<Rightarrow> bytes list \<times> 'c \<times> error option"
  plaintext_Write :: "'c \<Rightarrow> bytes \<Rightarrow> bytes list \<times> 'c \<times> error option"
  plaintext_Close :: "'c \<Rightarrow> bytes list \<times> error option"

text \<open>The dynamic type of the variable \<^verbatim>\<open>ciphertextEncoder\<close> (an \<^verbatim>\<open>io.WriteCloser\<close>).
  An encoder writes into the buffer \<^verbatim>\<open>ciphertext\<close>, so the variable is modelled as the
  pair of the encoder's state and the buffer's content; \<^verbatim>\<open>bytes.Buffer.Write\<close>
  appends and never fails.\<close>

datatype ('a, 'b) encoder = ArmorEncoder 'a | Base64Encoder 'b

type_synonym ('a, 'b) writeCloser = "('a, 'b) encoder \<times> bytes"

definition encoder_Write ::
  "('ent, 'a, 'b, 'c) library \<Rightarrow> ('a, 'b) writeCloser \<Rightarrow> bytes \<Rightarrow> ('a, 'b) writeCloser \<times> error option" where
  "encoder_Write lib w p =
    (case w of
       (ArmorEncoder a, buf) \<Rightarrow>
         (case armor_Write lib a p of (out, a', err) \<Rightarrow> ((ArmorEncoder a', buf @ out), err))
     | (Base64Encoder b, buf) \<Rightarrow>
         (case base64_Write lib b p of (out, b', err) \<Rightarrow> ((Base64Encoder b', buf @ out), err)))"

definition encoder_Close ::
  "('ent, 'a, 'b, 'c) library \<Rightarrow> ('a, 'b) writeCloser \<Rightarrow> bytes \<times> error option" where
  "encoder_Close lib w =
    (case w of
       (ArmorEncoder a, buf) \<Rightarrow> (case armor_Close lib a of (out, err) \<Rightarrow> (buf @ out, err))
     | (Base64Encoder b, buf) \<Rightarrow> (case base64_Close lib b of (out, err) \<Rightarrow> (buf @ out, err)))"

text \<open>The OpenPGP library writes its chunks to the \<^verbatim>\<open>io.Writer\<close> it was given, one
  \<^verbatim>\<open>Write\<close> call each, and stops at the first call that fails.\<close>

fun writeAll ::
  "('ent, 'a, 'b, 'c) library \<Rightarrow> ('a, 'b) writeCloser \<Rightarrow> bytes list \<Rightarrow> ('a, 'b) writeCloser \<times> error option" where
  "writeAll lib w [] = (w, None)"
| "writeAll lib w (p # ps) =
    (case encoder_Write lib w p of
       (w', Some e) \<Rightarrow> (w', Some e)
     | (w', None) \<Rightarrow> writeAll lib w' ps)"

text \<open>The three calls into the OpenPGP writer, on the encoder they write to: an error
  of the encoder underneath is the error of the call.\<close>

definition Encrypt ::
  "('ent, 'a, 'b, 'c) library \<Rightarrow> ('a, 'b) writeCloser \<Rightarrow> 'ent list \<Rightarrow> 'ent option \<Rightarrow> packet_Config
    \<Rightarrow> ('a, 'b) writeCloser \<times> 'c \<times> error option" where
  "Encrypt lib ciphertext to signed config =
    (case openpgp_Encrypt lib to signed config of
       (chunks, w, err) \<Rightarrow>
         (case writeAll lib ciphertext chunks of
            (ciphertext', Some e) \<Rightarrow> (ciphertext', w, Some e)
          | (ciphertext', None) \<Rightarrow> (ciphertext', w, err)))"

definition Write ::
  "('ent, 'a, 'b, 'c) library \<Rightarrow> ('a, 'b) writeCloser \<Rightarrow> 'c \<Rightarrow> bytes
    \<Rightarrow> ('a, 'b) writeCloser \<times> 'c \<times> error option" where
  "Write lib ciphertext w p =
    (case plaintext_Write lib w p of
       (chunks, w', err) \<Rightarrow>
         (case writeAll lib ciphertext chunks of
            (ciphertext', Some e) \<Rightarrow> (ciphertext', w', Some e)
          | (ciphertext', None) \<Rightarrow> (ciphertext', w', err)))"

definition Close ::
  "('ent, 'a, 'b, 'c) library \<Rightarrow> ('a, 'b) writeCloser \<Rightarrow> 'c \<Rightarrow> ('a, 'b) writeCloser \<times> error option" where
  "Close lib ciphertext w =
    (case plaintext_Close lib w of
       (chunks, err) \<Rightarrow>
         (case writeAll lib ciphertext chunks of
            (ciphertext', Some e) \<Rightarrow> (ciphertext', Some e)
          | (ciphertext', None) \<Rightarrow> (ciphertext', err)))"

subsection \<open>The calls a run makes\<close>

text \<open>The handler returns, beside its outcome and the storage, the calls it made from
  recipient parsing on, in order, with the arguments and the returned error where
  a property needs them.\<close>

datatype 'ent call =
    Called_ReadArmoredKeyRing string
  | Called_key string
  | Called_Storage storageOp
  | Called_entity keyRecord
  | Called_armor_Encode string
  | Called_base64_NewEncoder
  | Called_Encrypt "'ent list" "'ent option" packet_Config "error option"
  | Called_Write bytes "error option"
  | Called_Close "error option"
  | Called_Encoder_Close "error option"
  | Called_Buffer_String

subsection \<open>The handler (lines 67--161)\<close>

text \<open>Lines 76--79: the URL parameter, and the body parameter when the URL has none.\<close>

definition selectAlgorithm :: "fieldData \<Rightarrow> string" where
  "selectAlgorithm data =
    (let algorithm = Get data ''urlalgorithm'' in
     if algorithm = [] then Get data ''algorithm'' else algorithm)"

text \<open>Lines 80--91: the switch over the algorithm; \<open>None\<close> is its default branch.\<close>

definition hashOf :: "string \<Rightarrow> crypto_Hash option" where
  "hashOf algorithm =
    (if algorithm = ''sha2-224'' then Some SHA224
     else if algorithm = ''sha2-256'' then Some SHA256
     else if algorithm = ''sha2-384'' then Some SHA384
     else if algorithm = ''sha2-512'' then Some SHA512
     else None)"

text \<open>Lines 126--160: the buffer, the encoder, the encryption and the response.\<close>

definition encryptTo ::
  "('ent, 'a, 'b, 'c) library \<Rightarrow> string \<Rightarrow> bytes \<Rightarrow> 'ent list \<Rightarrow> 'ent option \<Rightarrow> packet_Config
    \<Rightarrow> 'ent call list \<Rightarrow> outcome \<times> 'ent call list" where
  "encryptTo lib format plaintext recipientKeyList entity config log =
    (let ciphertext = [] in
     case (if format = ''ascii-armor'' then
             (case armor_Encode lib ''PGP MESSAGE'' [] of
                (out, encoder, err) \<Rightarrow>
                  (Some (ArmorEncoder encoder, ciphertext @ out), err,
                   [Called_armor_Encode ''PGP MESSAGE'']))
           else if format = ''base64'' then
             (Some (Base64Encoder (base64_NewEncoder lib), ciphertext), None,
              [Called_base64_NewEncoder])
           else (None, None, []))
     of
       (_, Some e, calls) \<Rightarrow> (Return None (Some e), log @ calls)
     | (None, None, calls) \<Rightarrow> (Panic NilDereference, log @ calls)
     | (Some ciphertextEncoder, None, calls) \<Rightarrow>
        (let log = log @ calls in
         case Encrypt lib ciphertextEncoder recipientKeyList entity config of
           (ciphertextEncoder, w, err) \<Rightarrow>
            (let log = log @ [Called_Encrypt recipientKeyList entity config err] in
             case err of
               Some e \<Rightarrow> (Return None (Some e), log)
             | None \<Rightarrow>
                (case Write lib ciphertextEncoder w plaintext of
                   (ciphertextEncoder, w, err) \<Rightarrow>
                    (let log = log @ [Called_Write plaintext err] in
                     case err of
                       Some e \<Rightarrow> (Return None (Some e), log)
                     | None \<Rightarrow>
                        (case Close lib ciphertextEncoder w of
                           (ciphertextEncoder, err) \<Rightarrow>
                            (let log = log @ [Called_Close err] in
                             case err of
                               Some e \<Rightarrow> (Return None (Some e), log)
                             | None \<Rightarrow>
                                (case encoder_Close lib ciphertextEncoder of
                                   (ciphertext, err) \<Rightarrow>
                                    (let log = log @ [Called_Encoder_Close err] in
                                     case err of
                                       Some e \<Rightarrow> (Return None (Some e), log)
                                     | None \<Rightarrow>
                                        (Return (Some \<lparr>Data = [''ciphertext'' \<mapsto> ciphertext]\<rparr>) None,
                                         log @ [Called_Buffer_String]))))))))))"

text \<open>Lines 114--124, then the part above: the sender's key and its entity.\<close>

definition resolveAndEncrypt ::
  "('ent, 'a, 'b, 'c) library \<Rightarrow> 'ent backend \<Rightarrow> storage \<Rightarrow> fieldData \<Rightarrow> string \<Rightarrow> bytes
    \<Rightarrow> 'ent list \<Rightarrow> packet_Config \<Rightarrow> 'ent call list \<Rightarrow> outcome \<times> storage \<times> 'ent call list" where
  "resolveAndEncrypt lib b s data format plaintext recipientKeyList config log =
    (let nm = Get data ''name'' in
     case backend_key b s nm of
       ((entry, err), s, ops) \<Rightarrow>
        (let log = log @ [Called_key nm] @ map Called_Storage ops in
         case err of
           Some e \<Rightarrow> (Return None (Some e), s, log)
         | None \<Rightarrow>
            (case entry of
               None \<Rightarrow> (Return (Some (ErrorResponse ''key not found'')) (Some ErrInvalidRequest), s, log)
             | Some entry \<Rightarrow>
                (case backend_entity b entry of
                   (entity, err) \<Rightarrow>
                    (let log = log @ [Called_entity entry] in
                     case err of
                       Some e \<Rightarrow> (Return None (Some e), s, log)
                     | None \<Rightarrow>
                        (case encryptTo lib format plaintext recipientKeyList entity config log of
                           (result, log) \<Rightarrow> (result, s, log)))))))"

text \<open>Lines 67--112, then the parts above. The second test of \<^verbatim>\<open>err\<close> (line 110)
  is kept as the source has it; \<^verbatim>\<open>el[0]\<close> on an empty list is Go's index panic.\<close>

definition pathEncryptWrite ::
  "('ent, 'a, 'b, 'c) library \<Rightarrow> 'ent backend \<Rightarrow> storage \<Rightarrow> fieldData
    \<Rightarrow> outcome \<times> storage \<times> 'ent call list" where
  "pathEncryptWrite lib b s data =
    (let plaintextB64 = Get data ''plaintext'' in
     case base64_DecodeString lib plaintextB64 of
       (plaintext, Some e) \<Rightarrow>
         (Return (Some (ErrorResponse (''unable to decode plaintext as base64: '' @ Error e)))
            (Some ErrInvalidRequest), s, [])
     | (plaintext, None) \<Rightarrow>
        (let algorithm = selectAlgorithm data in
         case hashOf algorithm of
           None \<Rightarrow> (Return (Some (ErrorResponse (''unsupported algorithm '' @ algorithm))) None, s, [])
         | Some h \<Rightarrow>
            (let config = \<lparr>DefaultHash = Some h\<rparr>;
                 format = Get data ''format''
             in
             if format \<noteq> ''base64'' \<and> format \<noteq> ''ascii-armor'' then
               (Return (Some (ErrorResponse (''unsupported encoding format '' @ format
                   @ ''; must be \"base64\" or \"ascii-armor\"''))) None, s, [])
             else
              (let recipientKey = Get data ''recipient_key'' in
               if recipientKey = [] then
                 (Return (Some (ErrorResponse ''recipient_key not exist'')) (Some ErrInvalidRequest), s, [])
               else
                (case openpgp_ReadArmoredKeyRing lib recipientKey of
                   (el, err) \<Rightarrow>
                    (let log = [Called_ReadArmoredKeyRing recipientKey] in
                     case err of
                       Some e \<Rightarrow> (Return (Some (ErrorResponse (Error e))) (Some ErrInvalidRequest), s, log)
                     | None \<Rightarrow>
                        (case el of
                           [] \<Rightarrow> (Panic IndexOutOfRange, s, log)
                         | el0 # _ \<Rightarrow>
                            (let recipientKeyList = [el0] in
                             case err of
                               Some e \<Rightarrow> (Return None (Some e), s, log)
                             | None \<Rightarrow>
                                 resolveAndEncrypt lib b s data format plaintext recipientKeyList
                                   config log))))))))"

text \<open>The handler as the specification's design note asks for it: the same, without
  the second test of \<^verbatim>\<open>err\<close>.\<close>

definition pathEncryptWrite_without_second_check ::
  "('ent, 'a, 'b, 'c) library \<Rightarrow> 'ent backend \<Rightarrow> storage \<Rightarrow> fieldData
    \<Rightarrow> outcome \<times> storage \<times> 'ent call list" where
  "pathEncryptWrite_without_second_check lib b s data =
    (let plaintextB64 = Get data ''plaintext'' in
     case base64_DecodeString lib plaintextB64 of
       (plaintext, Some e) \<Rightarrow>
         (Return (Some (ErrorResponse (''unable to decode plaintext as base64: '' @ Error e)))
            (Some ErrInvalidRequest), s, [])
     | (plaintext, None) \<Rightarrow>
        (let algorithm = selectAlgorithm data in
         case hashOf algorithm of
           None \<Rightarrow> (Return (Some (ErrorResponse (''unsupported algorithm '' @ algorithm))) None, s, [])
         | Some h \<Rightarrow>
            (let config = \<lparr>DefaultHash = Some h\<rparr>;
                 format = Get data ''format''
             in
             if format \<noteq> ''base64'' \<and> format \<noteq> ''ascii-armor'' then
               (Return (Some (ErrorResponse (''unsupported encoding format '' @ format
                   @ ''; must be \"base64\" or \"ascii-armor\"''))) None, s, [])
             else
              (let recipientKey = Get data ''recipient_key'' in
               if recipientKey = [] then
                 (Return (Some (ErrorResponse ''recipient_key not exist'')) (Some ErrInvalidRequest), s, [])
               else
                (case openpgp_ReadArmoredKeyRing lib recipientKey of
                   (el, err) \<Rightarrow>
                    (let log = [Called_ReadArmoredKeyRing recipientKey] in
                     case err of
                       Some e \<Rightarrow> (Return (Some (ErrorResponse (Error e))) (Some ErrInvalidRequest), s, log)
                     | None \<Rightarrow>
                        (case el of
                           [] \<Rightarrow> (Panic IndexOutOfRange, s, log)
                         | el0 # _ \<Rightarrow>
                            (let recipientKeyList = [el0] in
                             resolveAndEncrypt lib b s data format plaintext recipientKeyList
                               config log))))))))"

subsection \<open>Observations on the calls of a run\<close>

text \<open>The storage operations among the calls, in order.\<close>

fun storageOps :: "'ent call list \<Rightarrow> storageOp list" where
  "storageOps [] = []"
| "storageOps (Called_Storage op # cs) = op # storageOps cs"
| "storageOps (_ # cs) = storageOps cs"

text \<open>The calls that close a writer or read the buffer, in order.\<close>

fun closesAndReads :: "'ent call list \<Rightarrow> 'ent call list" where
  "closesAndReads [] = []"
| "closesAndReads (Called_Close err # cs) = Called_Close err # closesAndReads cs"
| "closesAndReads (Called_Encoder_Close err # cs) = Called_Encoder_Close err # closesAndReads cs"
| "closesAndReads (Called_Buffer_String # cs) = Called_Buffer_String # closesAndReads cs"
| "closesAndReads (_ # cs) = closesAndReads cs"

subsection \<open>Contracts of the encoders and of the cipher\<close>

text \<open>
  What the armored output looks like and whether a ciphertext decrypts is decided
  inside the libraries. Two properties of the handler are therefore stated relative
  to a contract of the library, a hypothesis on the parameter \<open>lib\<close>.

  The armor encoders opened with the block type \<open>bt\<close>: the state
  \<^verbatim>\<open>armor.Encode\<close> returns, and every state a successful \<^verbatim>\<open>Write\<close> leads to.
\<close>

inductive armorEncoderOf :: "('ent, 'a, 'b, 'c) library \<Rightarrow> string \<Rightarrow> 'a \<Rightarrow> bool"
  for lib :: "('ent, 'a, 'b, 'c) library" and bt :: string where
  opened: "armor_Encode lib bt hs = (out, a, None) \<Longrightarrow> armorEncoderOf lib bt a"
| written: "armorEncoderOf lib bt a \<Longrightarrow> armor_Write lib a p = (out, a', None)
    \<Longrightarrow> armorEncoderOf lib bt a'"

text \<open>The framing of \<^verbatim>\<open>openpgp/armor\<close>: \<^verbatim>\<open>Encode\<close> starts its output with the line
  \<^verbatim>\<open>-----BEGIN <type>-----\<close>, and \<^verbatim>\<open>Close\<close> ends it with \<^verbatim>\<open>-----END <type>-----\<close>.\<close>

definition armorFraming :: "('ent, 'a, 'b, 'c) library \<Rightarrow> bool" where
  "armorFraming lib \<longleftrightarrow>
     (\<forall>bt hs out a. armor_Encode lib bt hs = (out, a, None)
        \<longrightarrow> prefix (''-----BEGIN '' @ bt @ ''-----'') out)
   \<and> (\<forall>bt a out. armorEncoderOf lib bt a \<and> armor_Close lib a = (out, None)
        \<longrightarrow> suffix (''-----END '' @ bt @ ''-----'') out)"

text \<open>Decoding inverts encoding: what an encoder has written, after chunks \<open>ps\<close> and
  \<^verbatim>\<open>Close\<close>, decodes to the concatenation of the chunks (for the armor: of the block type \<open>bt\<close>).\<close>

definition base64RoundTrip ::
  "('ent, 'a, 'b, 'c) library \<Rightarrow> (string \<Rightarrow> bytes option) \<Rightarrow> bool" where
  "base64RoundTrip lib decode \<longleftrightarrow>
     (\<forall>ps w c. writeAll lib (Base64Encoder (base64_NewEncoder lib), []) ps = (w, None)
         \<and> encoder_Close lib w = (c, None)
        \<longrightarrow> decode c = Some (concat ps))"

definition armorRoundTrip ::
  "('ent, 'a, 'b, 'c) library \<Rightarrow> string \<Rightarrow> (string \<Rightarrow> bytes option) \<Rightarrow> bool" where
  "armorRoundTrip lib bt decode \<longleftrightarrow>
     (\<forall>hs out a ps w c. armor_Encode lib bt hs = (out, a, None)
         \<and> writeAll lib (ArmorEncoder a, out) ps = (w, None)
         \<and> encoder_Close lib w = (c, None)
        \<longrightarrow> decode c = Some (concat ps))"

text \<open>Decryption inverts encryption: the message the OpenPGP writer emits for the
  recipients \<open>to\<close> and one \<^verbatim>\<open>Write\<close> of the plaintext \<open>p\<close>, read with the private
  key of any of the recipients, is \<open>p\<close>.\<close>

definition cipherRoundTrip ::
  "('ent, 'a, 'b, 'c) library \<Rightarrow> ('ent \<Rightarrow> bytes \<Rightarrow> bytes option) \<Rightarrow> bool" where
  "cipherRoundTrip lib decrypt \<longleftrightarrow>
     (\<forall>to signed config cs1 w1 p cs2 w2 cs3.
        openpgp_Encrypt lib to signed config = (cs1, w1, None)
         \<and> plaintext_Write lib w1 p = (cs2, w2, None)
         \<and> plaintext_Close lib w2 = (cs3, None)
        \<longrightarrow> (\<forall>r \<in> set to. decrypt r (concat (cs1 @ cs2 @ cs3)) = Some p))"

text \<open>Modelled from the spec: decryption is not part of the sources. Section 4.4 of
  the specification has Decrypt as the inverse of Encrypt: decode the ciphertext per
  format, then run the library's decryption with the private key material. The two
  decoders and the library's decryption with the private key of an entity are
  parameters.\<close>

definition Decrypt ::
  "(string \<Rightarrow> bytes option) \<Rightarrow> (string \<Rightarrow> bytes option) \<Rightarrow> ('ent \<Rightarrow> bytes \<Rightarrow> bytes option)
    \<Rightarrow> 'ent \<Rightarrow> string \<Rightarrow> string \<Rightarrow> bytes option" where
  "Decrypt decodeArmor decodeBase64 decrypt keyOwner format ciphertext =
    (case (if format = ''ascii-armor'' then decodeArmor ciphertext else decodeBase64 ciphertext) of
       None \<Rightarrow> None
     | Some stream \<Rightarrow> decrypt keyOwner stream)"

subsection \<open>An example instance\<close>

text \<open>
  Concrete callees for evaluating the handler. Entities are named by strings. The
  instance answers the inputs used below as the real libraries do: a base64 text
  and a text that is not base64; the armored public key of one entity, of two,
  and an armored key block with an empty body, for which
  \<^verbatim>\<open>openpgp.ReadArmoredKeyRing\<close> returns no entity and no error (\<^verbatim>\<open>ReadKeyRing\<close>
  ends its loop at the end of the input with an empty list and returns the last
  unsupported-key error, of which there is none). Its encoders copy their input,
  the armor encoder between the two armor lines; its cipher brackets the
  plaintext.
\<close>

definition emptyKeyRing :: string where
  "emptyKeyRing =
    ''-----BEGIN PGP PUBLIC KEY BLOCK-----\<newline>\<newline>=twTO\<newline>-----END PGP PUBLIC KEY BLOCK-----''"

definition exampleLibrary :: "(string, string, unit, unit) library" where
  "exampleLibrary = \<lparr>
     base64_DecodeString = (\<lambda>s.
        if s = ''aGVsbG8='' then (''hello'', None)
        else if s = [] then ([], None)
        else ([], Some (Err ''illegal base64 data at input byte 0''))),
     openpgp_ReadArmoredKeyRing = (\<lambda>text.
        if text = ''<armored public key of bob>'' then ([''bob''], None)
        else if text = ''<armored public keys of bob and carol>'' then ([''bob'', ''carol''], None)
        else if text = emptyKeyRing then ([], None)
        else ([], Some (Err ''openpgp: invalid argument: no armored data found''))),
     armor_Encode = (\<lambda>blockType headers.
        (''-----BEGIN '' @ blockType @ ''-----\<newline>\<newline>'', blockType, None)),
     armor_Write = (\<lambda>a p. (p, a, None)),
     armor_Close = (\<lambda>a. (''\<newline>-----END '' @ a @ ''-----'', None)),
     base64_NewEncoder = (),
     base64_Write = (\<lambda>u p. (p, u, None)),
     base64_Close = (\<lambda>u. ([], None)),
     openpgp_Encrypt = (\<lambda>to signed config.
        if to = [] then ([], (), Some (Err ''no recipients'')) else ([''[''], (), None)),
     plaintext_Write = (\<lambda>w p. ([p], w, None)),
     plaintext_Close = (\<lambda>w. (['']''], None))
   \<rparr>"

definition alice :: keyRecord where
  "alice = \<lparr>recordName = ''alice'', serializedKey = ''<private key of alice>'',
     generationParams = \<lparr>realName = ''Alice'', email = ''alice@example.com'', keyBits = 2048\<rparr>,
     createdAt = 0\<rparr>"

definition exampleBackend :: "string backend" where
  "exampleBackend = \<lparr>backend_key = KeyStore_get,
     backend_entity = (\<lambda>entry. (Some (recordName entry), None))\<rparr>"

definition exampleStorage :: storage where
  "exampleStorage = \<lparr>records = [''keys/alice'' \<mapsto> alice], failing = None\<rparr>"

text \<open>The example of the specification (section 8): key alice, plaintext
  \<^verbatim>\<open>aGVsbG8=\<close>, default algorithm and format, recipient bob.\<close>

definition exampleRequest :: fieldData where
  "exampleRequest = requestData [''name'' \<mapsto> ''alice'', ''plaintext'' \<mapsto> ''aGVsbG8='',
     ''recipient_key'' \<mapsto> ''<armored public key of bob>'']"

definition armorRequest :: fieldData where
  "armorRequest = requestData [''name'' \<mapsto> ''alice'', ''plaintext'' \<mapsto> ''aGVsbG8='',
     ''format'' \<mapsto> ''ascii-armor'',
     ''recipient_key'' \<mapsto> ''<armored public keys of bob and carol>'']"

definition emptyKeyRingRequest :: fieldData where
  "emptyKeyRingRequest = requestData [''name'' \<mapsto> ''alice'', ''plaintext'' \<mapsto> ''aGVsbG8='',
     ''recipient_key'' \<mapsto> emptyKeyRing]"

definition undecodableRequest :: fieldData where
  "undecodableRequest = requestData [''name'' \<mapsto> ''alice'', ''plaintext'' \<mapsto> ''!'',
     ''algorithm'' \<mapsto> ''md5'', ''recipient_key'' \<mapsto> ''<armored public key of bob>'']"

definition md5Request :: fieldData where
  "md5Request = requestData [''name'' \<mapsto> ''alice'', ''plaintext'' \<mapsto> ''aGVsbG8='',
     ''algorithm'' \<mapsto> ''md5'', ''recipient_key'' \<mapsto> []]"

definition noRecipientRequest :: fieldData where
  "noRecipientRequest = requestData [''name'' \<mapsto> ''alice'', ''plaintext'' \<mapsto> ''aGVsbG8='',
     ''recipient_key'' \<mapsto> []]"

definition malformedKeyRequest :: fieldData where
  "malformedKeyRequest = requestData [''name'' \<mapsto> ''alice'', ''plaintext'' \<mapsto> ''aGVsbG8='',
     ''recipient_key'' \<mapsto> ''not a key'']"

definition urlAlgorithmRequest :: fieldData where
  "urlAlgorithmRequest = requestData [''name'' \<mapsto> ''alice'', ''plaintext'' \<mapsto> ''aGVsbG8='',
     ''urlalgorithm'' \<mapsto> ''sha2-512'', ''algorithm'' \<mapsto> ''sha2-224'',
     ''recipient_key'' \<mapsto> ''<armored public key of bob>'']"

text \<open>The instance with a plaintext writer whose \<^verbatim>\<open>Close\<close> fails, with a base64 encoder
  whose \<^verbatim>\<open>Close\<close> fails, and a storage that is failing.\<close>

definition closeFailsLibrary :: "(string, string, unit, unit) library" where
  "closeFailsLibrary = exampleLibrary\<lparr>plaintext_Close := \<lambda>w. ([], Some (Err ''close failed''))\<rparr>"

definition encoderCloseFailsLibrary :: "(string, string, unit, unit) library" where
  "encoderCloseFailsLibrary = exampleLibrary\<lparr>base64_Close := \<lambda>u. ([], Some (Err ''flush failed''))\<rparr>"

definition failingStorage :: storage where
  "failingStorage = \<lparr>records = Map.empty, failing = Some (Err ''storage unavailable'')\<rparr>"

text \<open>The decoders and the decryption that go with the instance.\<close>

definition exampleDecodeBase64 :: "string \<Rightarrow> bytes option" where
  "exampleDecodeBase64 c = Some c"

definition exampleDecodeArmor :: "string \<Rightarrow> bytes option" where
  "exampleDecodeArmor c =
    (let body = drop (length ''-----BEGIN PGP MESSAGE-----\<newline>\<newline>'') c
     in Some (take (length body - length ''\<newline>-----END PGP MESSAGE-----'') body))"

definition exampleDecrypt :: "string \<Rightarrow> bytes \<Rightarrow> bytes option" where
  "exampleDecrypt r stream =
    (if stream \<noteq> [] \<and> hd stream = CHR ''['' \<and> last stream = CHR '']''
     then Some (butlast (tl stream)) else None)"

section \<open>Properties\<close>

subsection \<open>Responses\<close>

lemma ErrorResponse_eq [simp]: "(ErrorResponse a = ErrorResponse b) = (a = b)"
  by (auto simp: ErrorResponse_def dest: map_upd_eqD1)

lemma IsError_ErrorResponse [simp]: "IsError (ErrorResponse text)"
  by (simp add: IsError_def ErrorResponse_def)

lemma not_IsError_ciphertext [simp]: "\<not> IsError \<lparr>Data = [''ciphertext'' \<mapsto> c]\<rparr>"
  by (simp add: IsError_def)

subsection \<open>Evaluating the example instance\<close>

lemma exampleLibrary_simps:
  "base64_DecodeString exampleLibrary s =
     (if s = ''aGVsbG8='' then (''hello'', None)
      else if s = [] then ([], None)
      else ([], Some (Err ''illegal base64 data at input byte 0'')))"
  "openpgp_ReadArmoredKeyRing exampleLibrary text =
     (if text = ''<armored public key of bob>'' then ([''bob''], None)
      else if text = ''<armored public keys of bob and carol>'' then ([''bob'', ''carol''], None)
      else if text = emptyKeyRing then ([], None)
      else ([], Some (Err ''openpgp: invalid argument: no armored data found'')))"
  "armor_Encode exampleLibrary blockType headers =
     (''-----BEGIN '' @ blockType @ ''-----\<newline>\<newline>'', blockType, None)"
  "armor_Write exampleLibrary a p = (p, a, None)"
  "armor_Close exampleLibrary a = (''\<newline>-----END '' @ a @ ''-----'', None)"
  "base64_NewEncoder exampleLibrary = ()"
  "base64_Write exampleLibrary u p = (p, u, None)"
  "base64_Close exampleLibrary u = ([], None)"
  "openpgp_Encrypt exampleLibrary to signed config =
     (if to = [] then ([], (), Some (Err ''no recipients'')) else ([''[''], (), None))"
  "plaintext_Write exampleLibrary w p = ([p], w, None)"
  "plaintext_Close exampleLibrary w = (['']''], None)"
  by (simp_all add: exampleLibrary_def)

lemma exampleBackend_simps:
  "backend_key exampleBackend = KeyStore_get"
  "backend_entity exampleBackend entry = (Some (recordName entry), None)"
  by (simp_all add: exampleBackend_def)

lemmas run_simps = pathEncryptWrite_def resolveAndEncrypt_def encryptTo_def
  Encrypt_def Write_def Close_def encoder_Write_def encoder_Close_def
  exampleLibrary_simps exampleBackend_simps exampleStorage_def requestData_def Get_def
  pathEncrypt_Fields_def DefaultOrZero_def selectAlgorithm_def hashOf_def KeyStore_get_def Let_def

lemma run_exampleRequest:
  "pathEncryptWrite exampleLibrary exampleBackend exampleStorage exampleRequest =
    (Return (Some \<lparr>Data = [''ciphertext'' \<mapsto> ''[hello]'']\<rparr>) None, exampleStorage,
     [Called_ReadArmoredKeyRing ''<armored public key of bob>'',
      Called_key ''alice'', Called_Storage (StorageGet ''keys/alice''), Called_entity alice,
      Called_base64_NewEncoder,
      Called_Encrypt [''bob''] (Some ''alice'') \<lparr>DefaultHash = Some SHA256\<rparr> None,
      Called_Write ''hello'' None, Called_Close None, Called_Encoder_Close None,
      Called_Buffer_String])"
  by (simp add: run_simps exampleRequest_def alice_def)

lemma run_armorRequest:
  "pathEncryptWrite exampleLibrary exampleBackend exampleStorage armorRequest =
    (Return (Some \<lparr>Data = [''ciphertext'' \<mapsto>
        ''-----BEGIN PGP MESSAGE-----\<newline>\<newline>[hello]\<newline>-----END PGP MESSAGE-----'']\<rparr>) None,
     exampleStorage,
     [Called_ReadArmoredKeyRing ''<armored public keys of bob and carol>'',
      Called_key ''alice'', Called_Storage (StorageGet ''keys/alice''), Called_entity alice,
      Called_armor_Encode ''PGP MESSAGE'',
      Called_Encrypt [''bob''] (Some ''alice'') \<lparr>DefaultHash = Some SHA256\<rparr> None,
      Called_Write ''hello'' None, Called_Close None, Called_Encoder_Close None,
      Called_Buffer_String])"
  by (simp add: run_simps armorRequest_def alice_def)

lemma run_emptyKeyRingRequest:
  "pathEncryptWrite exampleLibrary exampleBackend exampleStorage emptyKeyRingRequest =
    (Panic IndexOutOfRange, exampleStorage, [Called_ReadArmoredKeyRing emptyKeyRing])"
  by (simp add: run_simps emptyKeyRingRequest_def) (simp add: emptyKeyRing_def)

lemma run_undecodableRequest:
  "pathEncryptWrite exampleLibrary exampleBackend exampleStorage undecodableRequest =
    (Return (Some (ErrorResponse
        ''unable to decode plaintext as base64: illegal base64 data at input byte 0''))
      (Some ErrInvalidRequest), exampleStorage, [])"
  by (simp add: run_simps undecodableRequest_def)

lemma run_md5Request:
  "pathEncryptWrite exampleLibrary exampleBackend exampleStorage md5Request =
    (Return (Some (ErrorResponse ''unsupported algorithm md5'')) None, exampleStorage, [])"
  by (simp add: run_simps md5Request_def)

lemma run_noRecipientRequest:
  "pathEncryptWrite exampleLibrary exampleBackend exampleStorage noRecipientRequest =
    (Return (Some (ErrorResponse ''recipient_key not exist'')) (Some ErrInvalidRequest),
     exampleStorage, [])"
  by (simp add: run_simps noRecipientRequest_def)

subsection \<open>The calls of the three parts of the handler\<close>

lemma storageOps_append [simp]: "storageOps (xs @ ys) = storageOps xs @ storageOps ys"
  by (induction xs rule: storageOps.induct) simp_all

lemma storageOps_map_Called_Storage [simp]: "storageOps (map Called_Storage ops) = ops"
  by (induction ops) simp_all

lemma closesAndReads_append [simp]:
  "closesAndReads (xs @ ys) = closesAndReads xs @ closesAndReads ys"
  by (induction xs rule: closesAndReads.induct) simp_all

lemma closesAndReads_map_Called_Storage [simp]: "closesAndReads (map Called_Storage ops) = []"
  by (induction ops) simp_all

lemma set_closesAndReads:
  "Called_Close err \<in> set (closesAndReads log) \<longleftrightarrow> Called_Close err \<in> set log"
  "Called_Encoder_Close err \<in> set (closesAndReads log) \<longleftrightarrow> Called_Encoder_Close err \<in> set log"
  "Called_Buffer_String \<in> set (closesAndReads log) \<longleftrightarrow> Called_Buffer_String \<in> set log"
  by (induction log rule: closesAndReads.induct) auto

text \<open>The encryption part adds no storage operation, calls \<^verbatim>\<open>openpgp.Encrypt\<close> with
  the arguments it was given, and ends in one of five ways.\<close>

lemma encryptTo_storageOps:
  "encryptTo lib format plaintext to signed config log = (out, log')
    \<Longrightarrow> storageOps log' = storageOps log"
  by (auto simp: encryptTo_def Let_def split: prod.splits option.splits if_splits)

lemma encryptTo_Encrypt_arguments:
  "encryptTo lib format plaintext to signed config log = (out, log') \<Longrightarrow>
   Called_Encrypt to' signed' config' err \<in> set log' \<Longrightarrow>
   Called_Encrypt to' signed' config' err \<in> set log \<or> (to' = to \<and> signed' = signed \<and> config' = config)"
  by (auto simp: encryptTo_def Let_def split: prod.splits option.splits if_splits)

lemma encryptTo_closes:
  assumes "encryptTo lib format plaintext to signed config log = (out, log')"
  shows "(\<exists>c. out = Return (Some \<lparr>Data = [''ciphertext'' \<mapsto> c]\<rparr>) None
            \<and> closesAndReads log' = closesAndReads log
                 @ [Called_Close None, Called_Encoder_Close None, Called_Buffer_String])
       \<or> (\<exists>e. out = Return None (Some e)
            \<and> (closesAndReads log' = closesAndReads log
                \<or> closesAndReads log' = closesAndReads log @ [Called_Close (Some e)]
                \<or> closesAndReads log' = closesAndReads log
                     @ [Called_Close None, Called_Encoder_Close (Some e)]))
       \<or> (out = Panic NilDereference \<and> closesAndReads log' = closesAndReads log)"
  using assms
  by (auto simp: encryptTo_def Let_def split: prod.splits option.splits if_splits)

text \<open>The key part calls \<^verbatim>\<open>b.key\<close> once, on the storage and the name it was given.\<close>

lemma resolveAndEncrypt_storage:
  "resolveAndEncrypt lib b s data format plaintext to config log = (out, s', log') \<Longrightarrow>
   \<exists>r ops. backend_key b s (Get data ''name'') = (r, s', ops)
     \<and> storageOps log' = storageOps log @ ops"
  by (auto simp: resolveAndEncrypt_def Let_def split: prod.splits option.splits
      dest: encryptTo_storageOps)

lemma resolveAndEncrypt_Encrypt_arguments:
  "resolveAndEncrypt lib b s data format plaintext to config log = (out, s', log') \<Longrightarrow>
   Called_Encrypt to' signed' config' err \<in> set log' \<Longrightarrow>
   Called_Encrypt to' signed' config' err \<in> set log \<or> (to' = to \<and> config' = config)"
  by (auto simp: resolveAndEncrypt_def Let_def split: prod.splits option.splits
      dest: encryptTo_Encrypt_arguments)

lemma resolveAndEncrypt_key_called:
  "resolveAndEncrypt lib b s data format plaintext to config log = (out, s', log') \<Longrightarrow>
   Called_key (Get data ''name'') \<in> set log'"
  by (auto simp: resolveAndEncrypt_def encryptTo_def Let_def
      split: prod.splits option.splits if_splits)

lemma resolveAndEncrypt_closes:
  assumes "resolveAndEncrypt lib b s data format plaintext to config log = (out, s', log')"
    and "closesAndReads log = []"
  shows "(\<exists>c. out = Return (Some \<lparr>Data = [''ciphertext'' \<mapsto> c]\<rparr>) None
            \<and> closesAndReads log' = [Called_Close None, Called_Encoder_Close None, Called_Buffer_String])
       \<or> (\<exists>e. out = Return None (Some e)
            \<and> (closesAndReads log' = []
                \<or> closesAndReads log' = [Called_Close (Some e)]
                \<or> closesAndReads log' = [Called_Close None, Called_Encoder_Close (Some e)]))
       \<or> (out = Panic NilDereference \<and> closesAndReads log' = [])
       \<or> (out = Return (Some (ErrorResponse ''key not found'')) (Some ErrInvalidRequest)
            \<and> closesAndReads log' = [])"
  using assms
  by (auto simp: resolveAndEncrypt_def Let_def split: prod.splits option.splits
      dest!: encryptTo_closes)

text \<open>The whole handler.\<close>

lemma pathEncryptWrite_storage:
  assumes "pathEncryptWrite lib b s data = (out, s', log)"
  shows "(s' = s \<and> storageOps log = [])
       \<or> (\<exists>r. backend_key b s (Get data ''name'') = (r, s', storageOps log))"
  using assms
  by (auto simp: pathEncryptWrite_def Let_def split: prod.splits option.splits list.splits if_splits
      dest!: resolveAndEncrypt_storage)

lemma pathEncryptWrite_Encrypt_arguments:
  assumes "pathEncryptWrite lib b s data = (out, s', log)"
    and "Called_Encrypt to signed config err \<in> set log"
  shows "\<exists>p h el0 rest.
      base64_DecodeString lib (Get data ''plaintext'') = (p, None)
      \<and> hashOf (selectAlgorithm data) = Some h
      \<and> openpgp_ReadArmoredKeyRing lib (Get data ''recipient_key'') = (el0 # rest, None)
      \<and> to = [el0] \<and> config = \<lparr>DefaultHash = Some h\<rparr>"
  using assms
  by (auto simp: pathEncryptWrite_def Let_def split: prod.splits option.splits list.splits if_splits
      dest: resolveAndEncrypt_Encrypt_arguments)

lemma pathEncryptWrite_closes:
  assumes "pathEncryptWrite lib b s data = (out, s', log)"
  shows "(\<exists>c. out = Return (Some \<lparr>Data = [''ciphertext'' \<mapsto> c]\<rparr>) None
            \<and> closesAndReads log = [Called_Close None, Called_Encoder_Close None, Called_Buffer_String])
       \<or> (\<exists>e. out = Return None (Some e)
            \<and> (closesAndReads log = []
                \<or> closesAndReads log = [Called_Close (Some e)]
                \<or> closesAndReads log = [Called_Close None, Called_Encoder_Close (Some e)]))
       \<or> (\<exists>p. out = Panic p \<and> closesAndReads log = [])
       \<or> (\<exists>r err. out = Return (Some r) err \<and> IsError r \<and> closesAndReads log = [])"
  using assms
  by (auto simp: pathEncryptWrite_def Let_def split: prod.splits option.splits list.splits if_splits
      dest!: resolveAndEncrypt_closes)

text \<open>The handler reads one field of the library's record where it parses the recipient
  key, and nowhere else.\<close>

lemma encoder_Write_keyring_update [simp]:
  "encoder_Write (lib\<lparr>openpgp_ReadArmoredKeyRing := f\<rparr>) w p = encoder_Write lib w p"
  by (simp add: encoder_Write_def cong: prod.case_cong encoder.case_cong)

lemma encoder_Close_keyring_update [simp]:
  "encoder_Close (lib\<lparr>openpgp_ReadArmoredKeyRing := f\<rparr>) w = encoder_Close lib w"
  by (simp add: encoder_Close_def cong: prod.case_cong encoder.case_cong)

lemma writeAll_keyring_update [simp]:
  "writeAll (lib\<lparr>openpgp_ReadArmoredKeyRing := f\<rparr>) w ps = writeAll lib w ps"
  by (induction ps arbitrary: w) simp_all

lemma Encrypt_keyring_update [simp]:
  "Encrypt (lib\<lparr>openpgp_ReadArmoredKeyRing := f\<rparr>) w to signed config
     = Encrypt lib w to signed config"
  by (simp add: Encrypt_def cong: prod.case_cong)

lemma Write_keyring_update [simp]:
  "Write (lib\<lparr>openpgp_ReadArmoredKeyRing := f\<rparr>) w pw p = Write lib w pw p"
  by (simp add: Write_def cong: prod.case_cong)

lemma Close_keyring_update [simp]:
  "Close (lib\<lparr>openpgp_ReadArmoredKeyRing := f\<rparr>) w pw = Close lib w pw"
  by (simp add: Close_def cong: prod.case_cong)

lemma encryptTo_keyring_update [simp]:
  "encryptTo (lib\<lparr>openpgp_ReadArmoredKeyRing := f\<rparr>) format plaintext to signed config log
     = encryptTo lib format plaintext to signed config log"
  by (simp add: encryptTo_def cong: prod.case_cong option.case_cong if_cong)

lemma resolveAndEncrypt_keyring_update [simp]:
  "resolveAndEncrypt (lib\<lparr>openpgp_ReadArmoredKeyRing := f\<rparr>) b s data format plaintext to config log
     = resolveAndEncrypt lib b s data format plaintext to config log"
  by (simp add: resolveAndEncrypt_def cong: prod.case_cong option.case_cong)

lemma pathEncryptWrite_first_entity_only:
  assumes "openpgp_ReadArmoredKeyRing lib (Get data ''recipient_key'') = (e # rest, None)"
  shows "pathEncryptWrite (lib\<lparr>openpgp_ReadArmoredKeyRing := \<lambda>_. ([e], None)\<rparr>) b s data
    = pathEncryptWrite lib b s data"
  using assms
  by (simp add: pathEncryptWrite_def Let_def cong: prod.case_cong option.case_cong if_cong)

subsection \<open>More runs of the example instance\<close>

lemma run_malformedKeyRequest:
  "pathEncryptWrite exampleLibrary exampleBackend exampleStorage malformedKeyRequest =
    (Return (Some (ErrorResponse ''openpgp: invalid argument: no armored data found''))
       (Some ErrInvalidRequest), exampleStorage, [Called_ReadArmoredKeyRing ''not a key''])"
  by (simp add: run_simps malformedKeyRequest_def) (simp add: emptyKeyRing_def)

lemma run_closeFails:
  "pathEncryptWrite closeFailsLibrary exampleBackend exampleStorage exampleRequest =
    (Return None (Some (Err ''close failed'')), exampleStorage,
     [Called_ReadArmoredKeyRing ''<armored public key of bob>'',
      Called_key ''alice'', Called_Storage (StorageGet ''keys/alice''), Called_entity alice,
      Called_base64_NewEncoder,
      Called_Encrypt [''bob''] (Some ''alice'') \<lparr>DefaultHash = Some SHA256\<rparr> None,
      Called_Write ''hello'' None, Called_Close (Some (Err ''close failed''))])"
  by (simp add: closeFailsLibrary_def run_simps exampleRequest_def alice_def)

lemma run_encoderCloseFails:
  "pathEncryptWrite encoderCloseFailsLibrary exampleBackend exampleStorage exampleRequest =
    (Return None (Some (Err ''flush failed'')), exampleStorage,
     [Called_ReadArmoredKeyRing ''<armored public key of bob>'',
      Called_key ''alice'', Called_Storage (StorageGet ''keys/alice''), Called_entity alice,
      Called_base64_NewEncoder,
      Called_Encrypt [''bob''] (Some ''alice'') \<lparr>DefaultHash = Some SHA256\<rparr> None,
      Called_Write ''hello'' None, Called_Close None,
      Called_Encoder_Close (Some (Err ''flush failed''))])"
  by (simp add: encoderCloseFailsLibrary_def run_simps exampleRequest_def alice_def)

lemma run_failingStorage:
  "pathEncryptWrite exampleLibrary exampleBackend failingStorage exampleRequest =
    (Return None (Some (Err ''storage unavailable'')), failingStorage,
     [Called_ReadArmoredKeyRing ''<armored public key of bob>'',
      Called_key ''alice'', Called_Storage (StorageGet ''keys/alice'')])"
  by (simp add: run_simps failingStorage_def exampleRequest_def)

lemma run_urlAlgorithmRequest:
  "pathEncryptWrite exampleLibrary exampleBackend exampleStorage urlAlgorithmRequest =
    (Return (Some \<lparr>Data = [''ciphertext'' \<mapsto> ''[hello]'']\<rparr>) None, exampleStorage,
     [Called_ReadArmoredKeyRing ''<armored public key of bob>'',
      Called_key ''alice'', Called_Storage (StorageGet ''keys/alice''), Called_entity alice,
      Called_base64_NewEncoder,
      Called_Encrypt [''bob''] (Some ''alice'') \<lparr>DefaultHash = Some SHA512\<rparr> None,
      Called_Write ''hello'' None, Called_Close None, Called_Encoder_Close None,
      Called_Buffer_String])"
  by (simp add: run_simps urlAlgorithmRequest_def alice_def)

subsection \<open>The stream through the encoder\<close>

text \<open>Writing chunk lists one after the other is writing their concatenation.\<close>

lemma writeAll_append:
  "writeAll lib w (xs @ ys) =
    (case writeAll lib w xs of
       (w', Some e) \<Rightarrow> (w', Some e)
     | (w', None) \<Rightarrow> writeAll lib w' ys)"
  by (induction xs arbitrary: w) (auto split: prod.splits option.splits)

lemma writeAll_then:
  "writeAll lib w xs = (w', None) \<Longrightarrow> writeAll lib w' ys = r \<Longrightarrow> writeAll lib w (xs @ ys) = r"
  by (simp add: writeAll_append)

text \<open>A call into the OpenPGP writer that returns no error has written the chunks of
  the library call to the encoder, without error.\<close>

lemma Encrypt_None:
  "Encrypt lib w to signed config = (w', pw, None) \<Longrightarrow>
   \<exists>cs. openpgp_Encrypt lib to signed config = (cs, pw, None) \<and> writeAll lib w cs = (w', None)"
  by (auto simp: Encrypt_def split: prod.splits option.splits)

lemma Write_None:
  "Write lib w pw p = (w', pw', None) \<Longrightarrow>
   \<exists>cs. plaintext_Write lib pw p = (cs, pw', None) \<and> writeAll lib w cs = (w', None)"
  by (auto simp: Write_def split: prod.splits option.splits)

lemma Close_None:
  "Close lib w pw = (w', None) \<Longrightarrow>
   \<exists>cs. plaintext_Close lib pw = (cs, None) \<and> writeAll lib w cs = (w', None)"
  by (auto simp: Close_def split: prod.splits option.splits)

text \<open>A run of the encryption part that ends in a response has made the four calls
  without error, each on the state the one before left, and the response holds the
  buffer as the \<^verbatim>\<open>Close\<close> of the encoder left it.\<close>

lemma encryptTo_success_calls:
  assumes "encryptTo lib format plaintext to signed config log = (Return (Some r) None, log')"
  shows "\<exists>w0 w1 pw1 w2 pw2 w3 c.
      (format = ''ascii-armor'' \<and> (\<exists>out a. armor_Encode lib ''PGP MESSAGE'' [] = (out, a, None)
            \<and> w0 = (ArmorEncoder a, out))
       \<or> format = ''base64'' \<and> w0 = (Base64Encoder (base64_NewEncoder lib), []))
      \<and> Encrypt lib w0 to signed config = (w1, pw1, None)
      \<and> Write lib w1 pw1 plaintext = (w2, pw2, None)
      \<and> Close lib w2 pw2 = (w3, None)
      \<and> encoder_Close lib w3 = (c, None)
      \<and> r = \<lparr>Data = [''ciphertext'' \<mapsto> c]\<rparr>"
  using assms
  by (auto simp: encryptTo_def Let_def split: prod.splits option.splits if_splits)

text \<open>In terms of the library: the response holds what the encoder has written, from
  its creation to its \<^verbatim>\<open>Close\<close>, of the three chunk lists of the OpenPGP writer in
  order.\<close>

lemma encryptTo_success:
  assumes "encryptTo lib format plaintext to signed config log = (Return (Some r) None, log')"
  shows "\<exists>w0 cs1 pw1 cs2 pw2 cs3 w3 c.
      (format = ''ascii-armor'' \<and> (\<exists>out a. armor_Encode lib ''PGP MESSAGE'' [] = (out, a, None)
            \<and> w0 = (ArmorEncoder a, out))
       \<or> format = ''base64'' \<and> w0 = (Base64Encoder (base64_NewEncoder lib), []))
      \<and> openpgp_Encrypt lib to signed config = (cs1, pw1, None)
      \<and> plaintext_Write lib pw1 plaintext = (cs2, pw2, None)
      \<and> plaintext_Close lib pw2 = (cs3, None)
      \<and> writeAll lib w0 (cs1 @ cs2 @ cs3) = (w3, None)
      \<and> encoder_Close lib w3 = (c, None)
      \<and> r = \<lparr>Data = [''ciphertext'' \<mapsto> c]\<rparr>"
proof -
  from encryptTo_success_calls [OF assms] obtain w0 w1 pw1 w2 pw2 w3 c where
    w0: "format = ''ascii-armor'' \<and> (\<exists>out a. armor_Encode lib ''PGP MESSAGE'' [] = (out, a, None)
            \<and> w0 = (ArmorEncoder a, out))
         \<or> format = ''base64'' \<and> w0 = (Base64Encoder (base64_NewEncoder lib), [])"
    and e: "Encrypt lib w0 to signed config = (w1, pw1, None)"
    and w: "Write lib w1 pw1 plaintext = (w2, pw2, None)"
    and cl: "Close lib w2 pw2 = (w3, None)"
    and ec: "encoder_Close lib w3 = (c, None)"
    and r: "r = \<lparr>Data = [''ciphertext'' \<mapsto> c]\<rparr>"
    by blast
  from Encrypt_None [OF e] obtain cs1 where
    cs1: "openpgp_Encrypt lib to signed config = (cs1, pw1, None)" "writeAll lib w0 cs1 = (w1, None)"
    by auto
  from Write_None [OF w] obtain cs2 where
    cs2: "plaintext_Write lib pw1 plaintext = (cs2, pw2, None)" "writeAll lib w1 cs2 = (w2, None)"
    by auto
  from Close_None [OF cl] obtain cs3 where
    cs3: "plaintext_Close lib pw2 = (cs3, None)" "writeAll lib w2 cs3 = (w3, None)"
    by auto
  have "writeAll lib w0 (cs1 @ cs2 @ cs3) = (w3, None)"
    by (rule writeAll_then [OF cs1(2)], rule writeAll_then [OF cs2(2)], rule cs3(2))
  with w0 cs1(1) cs2(1) cs3(1) ec r show ?thesis by blast
qed

lemma resolveAndEncrypt_success:
  assumes "resolveAndEncrypt lib b s data format plaintext to config log = (Return (Some r) None, s', log')"
    and "\<not> IsError r"
  shows "\<exists>signed log0. encryptTo lib format plaintext to signed config log0 = (Return (Some r) None, log')"
  using assms
  by (auto simp: resolveAndEncrypt_def Let_def split: prod.splits option.splits)

lemma pathEncryptWrite_success:
  assumes "pathEncryptWrite lib b s data = (Return (Some r) None, s', log)"
    and "\<not> IsError r"
  shows "\<exists>p h e rest signed log0.
      base64_DecodeString lib (Get data ''plaintext'') = (p, None)
      \<and> hashOf (selectAlgorithm data) = Some h
      \<and> openpgp_ReadArmoredKeyRing lib (Get data ''recipient_key'') = (e # rest, None)
      \<and> encryptTo lib (Get data ''format'') p [e] signed \<lparr>DefaultHash = Some h\<rparr> log0
          = (Return (Some r) None, log)"
  using assms
  by (auto simp: pathEncryptWrite_def Let_def
      split: prod.splits option.splits list.splits if_splits
      dest!: resolveAndEncrypt_success)

lemma armorFraming_first_line:
  "armorFraming lib \<Longrightarrow> armor_Encode lib bt hs = (out, a, None)
    \<Longrightarrow> prefix (''-----BEGIN '' @ bt @ ''-----'') out"
  unfolding armorFraming_def by blast

lemma armorFraming_last_line:
  "armorFraming lib \<Longrightarrow> armorEncoderOf lib bt a \<Longrightarrow> armor_Close lib a = (out, None)
    \<Longrightarrow> suffix (''-----END '' @ bt @ ''-----'') out"
  unfolding armorFraming_def by blast

text \<open>An armor encoder stays an armor encoder of its block type, and what is in the
  buffer stays at the front of the buffer.\<close>

lemma writeAll_armor:
  assumes "armorEncoderOf lib bt a"
    and "writeAll lib (ArmorEncoder a, buf) ps = (w', None)"
  shows "\<exists>a' buf'. w' = (ArmorEncoder a', buf') \<and> armorEncoderOf lib bt a' \<and> prefix buf buf'"
  using assms
proof (induction ps arbitrary: a buf)
  case Nil
  then show ?case by auto
next
  case (Cons p ps)
  from Cons.prems(2) obtain out a1 where
    step: "armor_Write lib a p = (out, a1, None)"
    and rest: "writeAll lib (ArmorEncoder a1, buf @ out) ps = (w', None)"
    by (auto simp: encoder_Write_def split: prod.splits option.splits)
  from Cons.prems(1) step have "armorEncoderOf lib bt a1"
    by (rule armorEncoderOf.written)
  from Cons.IH [OF this rest] obtain a' buf' where
    "w' = (ArmorEncoder a', buf')" "armorEncoderOf lib bt a'" "prefix (buf @ out) buf'"
    by auto
  then show ?case
    by (auto dest: append_prefixD)
qed

subsection \<open>The example instance meets the contracts\<close>

lemma example_armorEncoderOf: "armorEncoderOf exampleLibrary bt a \<Longrightarrow> a = bt"
  by (induction rule: armorEncoderOf.induct) (simp_all add: exampleLibrary_simps)

lemma example_armorFraming: "armorFraming exampleLibrary"
  unfolding armorFraming_def
  by (auto simp: exampleLibrary_simps suffix_def dest!: example_armorEncoderOf)

lemma example_writeAll:
  "writeAll exampleLibrary (Base64Encoder u, buf) ps = ((Base64Encoder u, buf @ concat ps), None)"
  "writeAll exampleLibrary (ArmorEncoder a, buf) ps = ((ArmorEncoder a, buf @ concat ps), None)"
  by (induction ps arbitrary: buf) (simp_all add: encoder_Write_def exampleLibrary_simps)

lemma example_base64RoundTrip: "base64RoundTrip exampleLibrary exampleDecodeBase64"
  unfolding base64RoundTrip_def
  by (auto simp: example_writeAll encoder_Close_def exampleLibrary_simps exampleDecodeBase64_def)

lemma example_armorRoundTrip: "armorRoundTrip exampleLibrary ''PGP MESSAGE'' exampleDecodeArmor"
  unfolding armorRoundTrip_def
  by (auto simp: example_writeAll encoder_Close_def exampleLibrary_simps exampleDecodeArmor_def)

lemma example_cipherRoundTrip: "cipherRoundTrip exampleLibrary exampleDecrypt"
  unfolding cipherRoundTrip_def
  by (auto simp: exampleLibrary_simps exampleDecrypt_def butlast_append split: if_splits)

section \<open>The claims\<close>

subsection \<open>C1: an empty or malformed recipient key ring\<close>

text \<open>
  C1. For a request that passes the earlier validations and has a non-empty
  \<^verbatim>\<open>recipient_key\<close>: where \<^verbatim>\<open>openpgp.ReadArmoredKeyRing\<close> reports an error (a malformed
  key ring), the handler returns the error response with that error's message and
  \<^verbatim>\<open>ErrInvalidRequest\<close>. Where the parser returns no entity and no error (an armored
  key block with an empty body), no test of the length guards \<^verbatim>\<open>el[0]\<close>: the handler
  ends in an index-out-of-range panic and not in an error response.
\<close>

theorem recipient_keyring_malformed_or_empty:
  assumes "base64_DecodeString lib (Get data ''plaintext'') = (p, None)"
    and "hashOf (selectAlgorithm data) = Some h"
    and "Get data ''format'' = ''base64'' \<or> Get data ''format'' = ''ascii-armor''"
    and "Get data ''recipient_key'' \<noteq> []"
  shows "(\<forall>el e. openpgp_ReadArmoredKeyRing lib (Get data ''recipient_key'') = (el, Some e) \<longrightarrow>
            pathEncryptWrite lib b s data
              = (Return (Some (ErrorResponse (Error e))) (Some ErrInvalidRequest), s,
                 [Called_ReadArmoredKeyRing (Get data ''recipient_key'')]))
       \<and> (openpgp_ReadArmoredKeyRing lib (Get data ''recipient_key'') = ([], None) \<longrightarrow>
            pathEncryptWrite lib b s data
              = (Panic IndexOutOfRange, s, [Called_ReadArmoredKeyRing (Get data ''recipient_key'')]))"
  using assms by (auto simp: pathEncryptWrite_def)

theorem recipient_keyring_malformed_or_empty_witness:
  "openpgp_ReadArmoredKeyRing exampleLibrary (Get malformedKeyRequest ''recipient_key'')
     = ([], Some (Err ''openpgp: invalid argument: no armored data found''))
   \<and> pathEncryptWrite exampleLibrary exampleBackend exampleStorage malformedKeyRequest
     = (Return (Some (ErrorResponse ''openpgp: invalid argument: no armored data found''))
          (Some ErrInvalidRequest), exampleStorage, [Called_ReadArmoredKeyRing ''not a key''])
   \<and> Get emptyKeyRingRequest ''recipient_key'' = emptyKeyRing
   \<and> openpgp_ReadArmoredKeyRing exampleLibrary emptyKeyRing = ([], None)
   \<and> pathEncryptWrite exampleLibrary exampleBackend exampleStorage emptyKeyRingRequest
     = (Panic IndexOutOfRange, exampleStorage, [Called_ReadArmoredKeyRing emptyKeyRing])"
  using recipient_keyring_malformed_or_empty
      [of exampleLibrary malformedKeyRequest "''hello''" SHA256 exampleBackend exampleStorage]
    recipient_keyring_malformed_or_empty
      [of exampleLibrary emptyKeyRingRequest "''hello''" SHA256 exampleBackend exampleStorage]
  by (simp add: malformedKeyRequest_def emptyKeyRingRequest_def exampleLibrary_simps requestData_def
      Get_def pathEncrypt_Fields_def DefaultOrZero_def selectAlgorithm_def hashOf_def emptyKeyRing_def)

subsection \<open>C2: the writers are closed before the buffer is read\<close>

text \<open>
  C2. In every run that ends in a ciphertext response, the calls that close a writer
  or read the buffer are, in this order: \<^verbatim>\<open>w.Close()\<close> returning no error,
  \<^verbatim>\<open>ciphertextEncoder.Close()\<close> returning no error, \<^verbatim>\<open>ciphertext.String()\<close>; and the
  ciphertext of the response is the buffer as the \<^verbatim>\<open>Close\<close> of the encoder left it,
  the encoder being in the state in which the \<^verbatim>\<open>Close\<close> of the OpenPGP writer left it.
  In every run in which one of the two \<^verbatim>\<open>Close\<close> calls returns an error, the handler
  returns \<^verbatim>\<open>(nil, err)\<close> with that error and never reads the buffer.
\<close>

theorem closes_precede_buffer_read:
  assumes "pathEncryptWrite lib b s data = (out, s', log)"
  shows "(\<forall>r. out = Return (Some r) None \<and> \<not> IsError r \<longrightarrow>
            closesAndReads log = [Called_Close None, Called_Encoder_Close None, Called_Buffer_String]
            \<and> (\<exists>w2 pw2 w3 c. Close lib w2 pw2 = (w3, None) \<and> encoder_Close lib w3 = (c, None)
                  \<and> r = \<lparr>Data = [''ciphertext'' \<mapsto> c]\<rparr>))
       \<and> (\<forall>e. Called_Close (Some e) \<in> set log \<or> Called_Encoder_Close (Some e) \<in> set log \<longrightarrow>
            out = Return None (Some e) \<and> Called_Buffer_String \<notin> set log)"
proof (intro conjI allI impI)
  fix r
  assume ok: "out = Return (Some r) None \<and> \<not> IsError r"
  with pathEncryptWrite_closes [OF assms]
  show "closesAndReads log = [Called_Close None, Called_Encoder_Close None, Called_Buffer_String]"
    by auto
  from ok assms pathEncryptWrite_success [of lib b s data r s' log]
  obtain format p to signed config log0 where
    "encryptTo lib format p to signed config log0 = (Return (Some r) None, log)"
    by auto
  from encryptTo_success_calls [OF this]
  show "\<exists>w2 pw2 w3 c. Close lib w2 pw2 = (w3, None) \<and> encoder_Close lib w3 = (c, None)
      \<and> r = \<lparr>Data = [''ciphertext'' \<mapsto> c]\<rparr>"
    by blast
next
  fix e
  assume "Called_Close (Some e) \<in> set log \<or> Called_Encoder_Close (Some e) \<in> set log"
  then have failed: "Called_Close (Some e) \<in> set (closesAndReads log)
      \<or> Called_Encoder_Close (Some e) \<in> set (closesAndReads log)"
    by (simp add: set_closesAndReads)
  with pathEncryptWrite_closes [OF assms]
  have "out = Return None (Some e) \<and> Called_Buffer_String \<notin> set (closesAndReads log)"
    by auto
  then show "out = Return None (Some e)" and "Called_Buffer_String \<notin> set log"
    by (simp_all add: set_closesAndReads)
qed

theorem closes_precede_buffer_read_witness:
  "closesAndReads (snd (snd (pathEncryptWrite exampleLibrary exampleBackend exampleStorage exampleRequest)))
     = [Called_Close None, Called_Encoder_Close None, Called_Buffer_String]
   \<and> fst (pathEncryptWrite closeFailsLibrary exampleBackend exampleStorage exampleRequest)
     = Return None (Some (Err ''close failed''))
   \<and> fst (pathEncryptWrite encoderCloseFailsLibrary exampleBackend exampleStorage exampleRequest)
     = Return None (Some (Err ''flush failed''))"
  using closes_precede_buffer_read [OF run_exampleRequest]
    closes_precede_buffer_read [OF run_closeFails]
    closes_precede_buffer_read [OF run_encoderCloseFails]
  by (simp add: run_exampleRequest run_closeFails run_encoderCloseFails)

subsection \<open>C3: decrypting what was encrypted\<close>

text \<open>
  C3. Let decoding invert the encoders of the library and let decryption with the
  private key of a recipient invert its encryption (\<open>base64RoundTrip\<close>,
  \<open>armorRoundTrip\<close>, \<open>cipherRoundTrip\<close>). Then for every request whose plaintext field
  decodes to \<open>P\<close> and whose recipient key parses to a first entity \<open>R\<close>, and that
  ends in a ciphertext response: decrypting the ciphertext of the response with the
  private key of \<open>R\<close> yields exactly \<open>P\<close>.
\<close>

theorem decrypt_encrypt_round_trip:
  assumes "cipherRoundTrip lib decrypt"
    and "base64RoundTrip lib decodeBase64"
    and "armorRoundTrip lib ''PGP MESSAGE'' decodeArmor"
    and "base64_DecodeString lib (Get data ''plaintext'') = (P, None)"
    and "openpgp_ReadArmoredKeyRing lib (Get data ''recipient_key'') = (R # rest, None)"
    and "pathEncryptWrite lib b s data = (Return (Some r) None, s', log)"
    and "\<not> IsError r"
  shows "\<exists>c. Data r ''ciphertext'' = Some c
       \<and> Decrypt decodeArmor decodeBase64 decrypt R (Get data ''format'') c = Some P"
proof -
  from pathEncryptWrite_success [OF assms(6,7)] assms(4,5) obtain signed config log0 where
    "encryptTo lib (Get data ''format'') P [R] signed config log0 = (Return (Some r) None, log)"
    by auto
  from encryptTo_success [OF this] obtain w0 cs1 pw1 cs2 pw2 cs3 w3 c where
    w0: "Get data ''format'' = ''ascii-armor''
           \<and> (\<exists>out a. armor_Encode lib ''PGP MESSAGE'' [] = (out, a, None) \<and> w0 = (ArmorEncoder a, out))
         \<or> Get data ''format'' = ''base64'' \<and> w0 = (Base64Encoder (base64_NewEncoder lib), [])"
    and enc: "openpgp_Encrypt lib [R] signed config = (cs1, pw1, None)"
    and wr: "plaintext_Write lib pw1 P = (cs2, pw2, None)"
    and cl: "plaintext_Close lib pw2 = (cs3, None)"
    and all: "writeAll lib w0 (cs1 @ cs2 @ cs3) = (w3, None)"
    and ec: "encoder_Close lib w3 = (c, None)"
    and r: "r = \<lparr>Data = [''ciphertext'' \<mapsto> c]\<rparr>"
    by blast
  from assms(1) enc wr cl have plain: "decrypt R (concat (cs1 @ cs2 @ cs3)) = Some P"
    unfolding cipherRoundTrip_def by fastforce
  from w0 have "(if Get data ''format'' = ''ascii-armor'' then decodeArmor c else decodeBase64 c)
      = Some (concat (cs1 @ cs2 @ cs3))"
  proof
    assume "Get data ''format'' = ''ascii-armor''
      \<and> (\<exists>out a. armor_Encode lib ''PGP MESSAGE'' [] = (out, a, None) \<and> w0 = (ArmorEncoder a, out))"
    with assms(3) all ec show ?thesis
      unfolding armorRoundTrip_def by fastforce
  next
    assume "Get data ''format'' = ''base64'' \<and> w0 = (Base64Encoder (base64_NewEncoder lib), [])"
    with assms(2) all ec show ?thesis
      unfolding base64RoundTrip_def by fastforce
  qed
  with plain r show ?thesis by (simp add: Decrypt_def)
qed

theorem decrypt_encrypt_round_trip_witness:
  "cipherRoundTrip exampleLibrary exampleDecrypt \<and> base64RoundTrip exampleLibrary exampleDecodeBase64
   \<and> armorRoundTrip exampleLibrary ''PGP MESSAGE'' exampleDecodeArmor
   \<and> base64_DecodeString exampleLibrary (Get exampleRequest ''plaintext'') = (''hello'', None)
   \<and> openpgp_ReadArmoredKeyRing exampleLibrary (Get exampleRequest ''recipient_key'') = ([''bob''], None)
   \<and> fst (pathEncryptWrite exampleLibrary exampleBackend exampleStorage exampleRequest)
     = Return (Some \<lparr>Data = [''ciphertext'' \<mapsto> ''[hello]'']\<rparr>) None
   \<and> Decrypt exampleDecodeArmor exampleDecodeBase64 exampleDecrypt ''bob''
         (Get exampleRequest ''format'') ''[hello]'' = Some ''hello''"
proof -
  have fields: "base64_DecodeString exampleLibrary (Get exampleRequest ''plaintext'') = (''hello'', None)"
    "openpgp_ReadArmoredKeyRing exampleLibrary (Get exampleRequest ''recipient_key'') = ([''bob''], None)"
    by (simp_all add: exampleRequest_def requestData_def Get_def exampleLibrary_simps)
  from decrypt_encrypt_round_trip [OF example_cipherRoundTrip example_base64RoundTrip
      example_armorRoundTrip fields run_exampleRequest]
  show ?thesis
    by (simp add: example_cipherRoundTrip example_base64RoundTrip example_armorRoundTrip fields
        run_exampleRequest)
qed

subsection \<open>C4: an unsupported algorithm\<close>

text \<open>
  C4, as stated, fails: the plaintext is decoded before the algorithm is looked at, so
  a request whose plaintext is not base64 gets the decoding error, whatever its
  algorithm. Here the algorithm is \<^verbatim>\<open>md5\<close> and the plaintext is \<^verbatim>\<open>!\<close>.
\<close>

theorem unsupported_algorithm_counterexample:
  "selectAlgorithm undecodableRequest = ''md5''
   \<and> ''md5'' \<notin> {''sha2-224'', ''sha2-256'', ''sha2-384'', ''sha2-512''}
   \<and> pathEncryptWrite exampleLibrary exampleBackend exampleStorage undecodableRequest
     = (Return (Some (ErrorResponse
          ''unable to decode plaintext as base64: illegal base64 data at input byte 0''))
        (Some ErrInvalidRequest), exampleStorage, [])
   \<and> ErrorResponse ''unable to decode plaintext as base64: illegal base64 data at input byte 0''
     \<noteq> ErrorResponse (''unsupported algorithm '' @ selectAlgorithm undecodableRequest)"
  by (simp add: run_undecodableRequest)
     (simp add: undecodableRequest_def requestData_def selectAlgorithm_def Get_def
        pathEncrypt_Fields_def DefaultOrZero_def)

text \<open>
  C4, amended. For every algorithm outside \<^verbatim>\<open>sha2-224\<close>, \<^verbatim>\<open>sha2-256\<close>, \<^verbatim>\<open>sha2-384\<close>,
  \<^verbatim>\<open>sha2-512\<close> the handler makes no call into storage or the OpenPGP library and
  leaves the storage as it was; and where the plaintext decodes as base64, it
  returns the error response \<^verbatim>\<open>unsupported algorithm <algorithm>\<close> (with a nil error).
\<close>

theorem unsupported_algorithm_no_effects:
  assumes "selectAlgorithm data \<notin> {''sha2-224'', ''sha2-256'', ''sha2-384'', ''sha2-512''}"
  shows "snd (pathEncryptWrite lib b s data) = (s, [])
       \<and> (\<forall>p. base64_DecodeString lib (Get data ''plaintext'') = (p, None) \<longrightarrow>
            fst (pathEncryptWrite lib b s data)
              = Return (Some (ErrorResponse (''unsupported algorithm '' @ selectAlgorithm data))) None)"
  using assms
  by (auto simp: pathEncryptWrite_def hashOf_def Let_def split: prod.splits option.splits)

theorem unsupported_algorithm_no_effects_witness:
  "selectAlgorithm md5Request \<notin> {''sha2-224'', ''sha2-256'', ''sha2-384'', ''sha2-512''}
   \<and> base64_DecodeString exampleLibrary (Get md5Request ''plaintext'') = (''hello'', None)
   \<and> pathEncryptWrite exampleLibrary exampleBackend exampleStorage md5Request
     = (Return (Some (ErrorResponse ''unsupported algorithm md5'')) None, exampleStorage, [])"
  using unsupported_algorithm_no_effects [of md5Request exampleLibrary exampleBackend exampleStorage]
  by (simp add: run_md5Request)
     (simp add: md5Request_def requestData_def selectAlgorithm_def Get_def
        pathEncrypt_Fields_def DefaultOrZero_def exampleLibrary_simps)

subsection \<open>C5: the first entity is the sole recipient\<close>

lemma encryptTo_success_Encrypt:
  "encryptTo lib format plaintext to signed config log = (Return (Some r) None, log')
    \<Longrightarrow> Called_Encrypt to signed config None \<in> set log'"
  by (auto simp: encryptTo_def Let_def split: prod.splits option.splits if_splits)

lemma resolveAndEncrypt_success_Encrypt:
  "resolveAndEncrypt lib b s data format plaintext to config log = (Return (Some r) None, s', log')
    \<Longrightarrow> \<not> IsError r \<Longrightarrow> \<exists>signed. Called_Encrypt to signed config None \<in> set log'"
  by (auto simp: resolveAndEncrypt_def Let_def split: prod.splits option.splits
      dest: encryptTo_success_Encrypt)

lemma pathEncryptWrite_success_Encrypt:
  assumes "pathEncryptWrite lib b s data = (Return (Some r) None, s', log)" and "\<not> IsError r"
  shows "\<exists>to signed config. Called_Encrypt to signed config None \<in> set log"
  using assms
  by (auto simp: pathEncryptWrite_def Let_def
      split: prod.splits option.splits list.splits if_splits
      dest!: resolveAndEncrypt_success_Encrypt)

text \<open>
  C5. Where the recipient key parses to the entities \<open>e # rest\<close>: every call of
  \<^verbatim>\<open>openpgp.Encrypt\<close> has the recipient list \<open>[e]\<close>, and a run that ends in a ciphertext
  response has made that call. The ciphertext of such a response is what the
  encoder of the requested format has written, from its creation to its
  \<^verbatim>\<open>Close\<close>, of the chunks that the library's encryption for the recipients \<open>[e]\<close>
  emits, for one \<^verbatim>\<open>Write\<close> of the decoded plaintext and the \<^verbatim>\<open>Close\<close> of its writer.
  The run is, in outcome, storage and calls, the run of the same request with a
  parser that returns \<open>[e]\<close> alone: the entities after the first are accepted and
  ignored.
\<close>

theorem first_entity_is_sole_recipient:
  assumes "openpgp_ReadArmoredKeyRing lib (Get data ''recipient_key'') = (e # rest, None)"
    and "pathEncryptWrite lib b s data = (out, s', log)"
  shows "(\<forall>to signed config err. Called_Encrypt to signed config err \<in> set log \<longrightarrow> to = [e])
       \<and> (\<forall>r. out = Return (Some r) None \<and> \<not> IsError r \<longrightarrow>
            (\<exists>signed config. Called_Encrypt [e] signed config None \<in> set log))
       \<and> (\<forall>r. out = Return (Some r) None \<and> \<not> IsError r \<longrightarrow>
            (\<exists>p h signed w0 cs1 pw1 cs2 pw2 cs3 w3 c.
                base64_DecodeString lib (Get data ''plaintext'') = (p, None)
              \<and> hashOf (selectAlgorithm data) = Some h
              \<and> (Get data ''format'' = ''ascii-armor''
                    \<and> (\<exists>hdr a. armor_Encode lib ''PGP MESSAGE'' [] = (hdr, a, None)
                          \<and> w0 = (ArmorEncoder a, hdr))
                  \<or> Get data ''format'' = ''base64''
                    \<and> w0 = (Base64Encoder (base64_NewEncoder lib), []))
              \<and> openpgp_Encrypt lib [e] signed \<lparr>DefaultHash = Some h\<rparr> = (cs1, pw1, None)
              \<and> plaintext_Write lib pw1 p = (cs2, pw2, None)
              \<and> plaintext_Close lib pw2 = (cs3, None)
              \<and> writeAll lib w0 (cs1 @ cs2 @ cs3) = (w3, None)
              \<and> encoder_Close lib w3 = (c, None)
              \<and> r = \<lparr>Data = [''ciphertext'' \<mapsto> c]\<rparr>))
       \<and> pathEncryptWrite (lib\<lparr>openpgp_ReadArmoredKeyRing := \<lambda>_. ([e], None)\<rparr>) b s data
            = (out, s', log)"
proof (intro conjI allI impI)
  fix to signed config err
  assume "Called_Encrypt to signed config err \<in> set log"
  from pathEncryptWrite_Encrypt_arguments [OF assms(2) this] assms(1)
  show "to = [e]" by auto
next
  fix r
  assume ok: "out = Return (Some r) None \<and> \<not> IsError r"
  with assms(2) pathEncryptWrite_success_Encrypt [of lib b s data r s' log]
  obtain to signed config where called: "Called_Encrypt to signed config None \<in> set log"
    by auto
  from pathEncryptWrite_Encrypt_arguments [OF assms(2) called] assms(1)
  have "to = [e]" by auto
  with called show "\<exists>signed config. Called_Encrypt [e] signed config None \<in> set log"
    by auto
next
  fix r
  assume ok: "out = Return (Some r) None \<and> \<not> IsError r"
  with assms(2) have run: "pathEncryptWrite lib b s data = (Return (Some r) None, s', log)"
    and noerr: "\<not> IsError r"
    by simp_all
  from pathEncryptWrite_success [OF run noerr] assms(1) obtain p h signed log0 where
    decoded: "base64_DecodeString lib (Get data ''plaintext'') = (p, None)"
    and hash: "hashOf (selectAlgorithm data) = Some h"
    and part: "encryptTo lib (Get data ''format'') p [e] signed \<lparr>DefaultHash = Some h\<rparr> log0
        = (Return (Some r) None, log)"
    by auto
  from encryptTo_success [OF part] obtain w0 cs1 pw1 cs2 pw2 cs3 w3 c where
    "Get data ''format'' = ''ascii-armor''
        \<and> (\<exists>hdr a. armor_Encode lib ''PGP MESSAGE'' [] = (hdr, a, None) \<and> w0 = (ArmorEncoder a, hdr))
      \<or> Get data ''format'' = ''base64'' \<and> w0 = (Base64Encoder (base64_NewEncoder lib), [])"
    "openpgp_Encrypt lib [e] signed \<lparr>DefaultHash = Some h\<rparr> = (cs1, pw1, None)"
    "plaintext_Write lib pw1 p = (cs2, pw2, None)"
    "plaintext_Close lib pw2 = (cs3, None)"
    "writeAll lib w0 (cs1 @ cs2 @ cs3) = (w3, None)"
    "encoder_Close lib w3 = (c, None)"
    "r = \<lparr>Data = [''ciphertext'' \<mapsto> c]\<rparr>"
    by blast
  with decoded hash
  show "\<exists>p h signed w0 cs1 pw1 cs2 pw2 cs3 w3 c.
      base64_DecodeString lib (Get data ''plaintext'') = (p, None)
      \<and> hashOf (selectAlgorithm data) = Some h
      \<and> (Get data ''format'' = ''ascii-armor''
            \<and> (\<exists>hdr a. armor_Encode lib ''PGP MESSAGE'' [] = (hdr, a, None)
                  \<and> w0 = (ArmorEncoder a, hdr))
          \<or> Get data ''format'' = ''base64''
            \<and> w0 = (Base64Encoder (base64_NewEncoder lib), []))
      \<and> openpgp_Encrypt lib [e] signed \<lparr>DefaultHash = Some h\<rparr> = (cs1, pw1, None)
      \<and> plaintext_Write lib pw1 p = (cs2, pw2, None)
      \<and> plaintext_Close lib pw2 = (cs3, None)
      \<and> writeAll lib w0 (cs1 @ cs2 @ cs3) = (w3, None)
      \<and> encoder_Close lib w3 = (c, None)
      \<and> r = \<lparr>Data = [''ciphertext'' \<mapsto> c]\<rparr>"
    by blast
next
  show "pathEncryptWrite (lib\<lparr>openpgp_ReadArmoredKeyRing := \<lambda>_. ([e], None)\<rparr>) b s data
      = (out, s', log)"
    using pathEncryptWrite_first_entity_only [OF assms(1)] assms(2) by simp
qed

theorem first_entity_is_sole_recipient_witness:
  "openpgp_ReadArmoredKeyRing exampleLibrary (Get armorRequest ''recipient_key'')
     = ([''bob'', ''carol''], None)
   \<and> Called_Encrypt [''bob''] (Some ''alice'') \<lparr>DefaultHash = Some SHA256\<rparr> None
       \<in> set (snd (snd (pathEncryptWrite exampleLibrary exampleBackend exampleStorage armorRequest)))
   \<and> openpgp_Encrypt exampleLibrary [''bob''] (Some ''alice'') \<lparr>DefaultHash = Some SHA256\<rparr>
       = ([''[''], (), None)
   \<and> fst (pathEncryptWrite exampleLibrary exampleBackend exampleStorage armorRequest)
       = Return (Some \<lparr>Data = [''ciphertext'' \<mapsto>
           ''-----BEGIN PGP MESSAGE-----\<newline>\<newline>[hello]\<newline>-----END PGP MESSAGE-----'']\<rparr>) None
   \<and> pathEncryptWrite (exampleLibrary\<lparr>openpgp_ReadArmoredKeyRing := \<lambda>_. ([''bob''], None)\<rparr>)
         exampleBackend exampleStorage armorRequest
     = pathEncryptWrite exampleLibrary exampleBackend exampleStorage armorRequest"
proof -
  have parsed: "openpgp_ReadArmoredKeyRing exampleLibrary (Get armorRequest ''recipient_key'')
      = ([''bob'', ''carol''], None)"
    by (simp add: armorRequest_def requestData_def Get_def exampleLibrary_simps)
  from first_entity_is_sole_recipient [OF parsed run_armorRequest]
  have same: "pathEncryptWrite (exampleLibrary\<lparr>openpgp_ReadArmoredKeyRing := \<lambda>_. ([''bob''], None)\<rparr>)
         exampleBackend exampleStorage armorRequest
     = pathEncryptWrite exampleLibrary exampleBackend exampleStorage armorRequest"
    by (simp add: run_armorRequest)
  show ?thesis
    using parsed same by (simp add: run_armorRequest exampleLibrary_simps)
qed

subsection \<open>C6: the selection of the algorithm\<close>

text \<open>
  C6. The effective algorithm is the field \<^verbatim>\<open>urlalgorithm\<close> when that is not empty, and
  the field \<^verbatim>\<open>algorithm\<close> when it is; for a request of this path that carries
  neither (or an empty \<^verbatim>\<open>urlalgorithm\<close> and no \<^verbatim>\<open>algorithm\<close>) it is \<^verbatim>\<open>sha2-256\<close>, the
  default of the schema. It is the algorithm whose hash every call of
  \<^verbatim>\<open>openpgp.Encrypt\<close> gets as the default hash of its configuration.
\<close>

theorem algorithm_selection:
  assumes "pathEncryptWrite lib b s data = (out, s', log)"
  shows "(Get data ''urlalgorithm'' \<noteq> [] \<longrightarrow> selectAlgorithm data = Get data ''urlalgorithm'')
       \<and> (Get data ''urlalgorithm'' = [] \<longrightarrow> selectAlgorithm data = Get data ''algorithm'')
       \<and> (Schema data = pathEncrypt_Fields \<and> Raw data ''algorithm'' = None
            \<and> (Raw data ''urlalgorithm'' = None \<or> Raw data ''urlalgorithm'' = Some [])
            \<longrightarrow> selectAlgorithm data = ''sha2-256'')
       \<and> (\<forall>to signed config err. Called_Encrypt to signed config err \<in> set log \<longrightarrow>
            DefaultHash config = hashOf (selectAlgorithm data) \<and> DefaultHash config \<noteq> None)"
proof (intro conjI allI impI)
  fix to signed config err
  assume "Called_Encrypt to signed config err \<in> set log"
  from pathEncryptWrite_Encrypt_arguments [OF assms this]
  show "DefaultHash config = hashOf (selectAlgorithm data)" and "DefaultHash config \<noteq> None"
    by auto
qed (auto simp: selectAlgorithm_def Get_def pathEncrypt_Fields_def DefaultOrZero_def)

theorem algorithm_selection_witness:
  "Get urlAlgorithmRequest ''urlalgorithm'' = ''sha2-512''
   \<and> Get urlAlgorithmRequest ''algorithm'' = ''sha2-224''
   \<and> selectAlgorithm urlAlgorithmRequest = ''sha2-512''
   \<and> Called_Encrypt [''bob''] (Some ''alice'') \<lparr>DefaultHash = Some SHA512\<rparr> None
       \<in> set (snd (snd (pathEncryptWrite exampleLibrary exampleBackend exampleStorage urlAlgorithmRequest)))
   \<and> Raw exampleRequest ''urlalgorithm'' = None \<and> Raw exampleRequest ''algorithm'' = None
   \<and> selectAlgorithm exampleRequest = ''sha2-256''
   \<and> Called_Encrypt [''bob''] (Some ''alice'') \<lparr>DefaultHash = Some SHA256\<rparr> None
       \<in> set (snd (snd (pathEncryptWrite exampleLibrary exampleBackend exampleStorage exampleRequest)))"
  using algorithm_selection [OF run_urlAlgorithmRequest] algorithm_selection [OF run_exampleRequest]
  by (simp add: run_exampleRequest run_urlAlgorithmRequest)
     (simp add: exampleRequest_def urlAlgorithmRequest_def requestData_def selectAlgorithm_def
        Get_def pathEncrypt_Fields_def DefaultOrZero_def)

subsection \<open>C7: an empty recipient key\<close>

text \<open>
  C7, as stated, fails: the plaintext, the algorithm and the format are validated
  before the recipient key, so a request with an empty \<^verbatim>\<open>recipient_key\<close> and the
  algorithm \<^verbatim>\<open>md5\<close> gets the error of the algorithm.
\<close>

theorem missing_recipient_counterexample:
  "Get md5Request ''recipient_key'' = []
   \<and> pathEncryptWrite exampleLibrary exampleBackend exampleStorage md5Request
     = (Return (Some (ErrorResponse ''unsupported algorithm md5'')) None, exampleStorage, [])
   \<and> Return (Some (ErrorResponse ''unsupported algorithm md5'')) None
     \<noteq> Return (Some (ErrorResponse ''recipient_key not exist'')) (Some ErrInvalidRequest)"
  by (simp add: run_md5Request) (simp add: md5Request_def requestData_def Get_def)

text \<open>
  C7, amended. For every request whose \<^verbatim>\<open>recipient_key\<close> is empty the handler returns
  an error response, makes no call into the OpenPGP library, the backend or the
  storage, and leaves the storage as it was; where the plaintext decodes and the
  algorithm and the format are supported, the response is \<^verbatim>\<open>recipient_key not exist\<close>
  with \<^verbatim>\<open>ErrInvalidRequest\<close>.
\<close>

theorem missing_recipient_before_crypto:
  assumes "Get data ''recipient_key'' = []"
  shows "snd (pathEncryptWrite lib b s data) = (s, [])
       \<and> (\<exists>r err. fst (pathEncryptWrite lib b s data) = Return (Some r) err \<and> IsError r)
       \<and> (\<forall>p h. base64_DecodeString lib (Get data ''plaintext'') = (p, None)
              \<and> hashOf (selectAlgorithm data) = Some h
              \<and> (Get data ''format'' = ''base64'' \<or> Get data ''format'' = ''ascii-armor'') \<longrightarrow>
            fst (pathEncryptWrite lib b s data)
              = Return (Some (ErrorResponse ''recipient_key not exist'')) (Some ErrInvalidRequest))"
  using assms
  by (auto simp: pathEncryptWrite_def Let_def split: prod.splits option.splits)

theorem missing_recipient_before_crypto_witness:
  "Get noRecipientRequest ''recipient_key'' = []
   \<and> base64_DecodeString exampleLibrary (Get noRecipientRequest ''plaintext'') = (''hello'', None)
   \<and> hashOf (selectAlgorithm noRecipientRequest) = Some SHA256
   \<and> Get noRecipientRequest ''format'' = ''base64''
   \<and> pathEncryptWrite exampleLibrary exampleBackend exampleStorage noRecipientRequest
     = (Return (Some (ErrorResponse ''recipient_key not exist'')) (Some ErrInvalidRequest),
        exampleStorage, [])"
  using missing_recipient_before_crypto [of noRecipientRequest exampleLibrary exampleBackend exampleStorage]
  by (simp add: run_noRecipientRequest)
     (simp add: noRecipientRequest_def requestData_def selectAlgorithm_def hashOf_def Get_def
        pathEncrypt_Fields_def DefaultOrZero_def exampleLibrary_simps)

subsection \<open>C8: the armor lines\<close>

text \<open>
  C8. Let the armor encoder of the library frame its output as \<^verbatim>\<open>openpgp/armor\<close>
  does (\<open>armorFraming\<close>). Then for every request with the format \<^verbatim>\<open>ascii-armor\<close>
  that ends in a ciphertext response, the ciphertext begins with
  \<^verbatim>\<open>-----BEGIN PGP MESSAGE-----\<close> and ends with \<^verbatim>\<open>-----END PGP MESSAGE-----\<close>: the
  handler opens the encoder with the block type \<^verbatim>\<open>PGP MESSAGE\<close> on the empty buffer,
  lets nothing but the encoder write to the buffer, and reads the buffer after the
  encoder is closed.
\<close>

theorem armored_ciphertext_is_framed:
  assumes "armorFraming lib"
    and "Get data ''format'' = ''ascii-armor''"
    and "pathEncryptWrite lib b s data = (Return (Some r) None, s', log)"
    and "\<not> IsError r"
  shows "\<exists>c. Data r ''ciphertext'' = Some c
       \<and> prefix ''-----BEGIN PGP MESSAGE-----'' c \<and> suffix ''-----END PGP MESSAGE-----'' c"
proof -
  from pathEncryptWrite_success [OF assms(3,4)] assms(2) obtain p e signed config log0 where
    "encryptTo lib ''ascii-armor'' p [e] signed config log0 = (Return (Some r) None, log)"
    by auto
  from encryptTo_success [OF this] obtain out a cs w3 c where
    enc: "armor_Encode lib ''PGP MESSAGE'' [] = (out, a, None)"
    and wr: "writeAll lib (ArmorEncoder a, out) cs = (w3, None)"
    and cl: "encoder_Close lib w3 = (c, None)"
    and r: "r = \<lparr>Data = [''ciphertext'' \<mapsto> c]\<rparr>"
    by auto
  from armorFraming_first_line [OF assms(1) enc]
  have starts: "prefix ''-----BEGIN PGP MESSAGE-----'' out"
    by simp
  from enc have "armorEncoderOf lib ''PGP MESSAGE'' a"
    by (rule armorEncoderOf.opened)
  from writeAll_armor [OF this wr] obtain a' buf' where
    w3: "w3 = (ArmorEncoder a', buf')" and a': "armorEncoderOf lib ''PGP MESSAGE'' a'"
    and front: "prefix out buf'"
    by auto
  from cl w3 obtain tail where tail: "armor_Close lib a' = (tail, None)" and c: "c = buf' @ tail"
    by (auto simp: encoder_Close_def split: prod.splits)
  from armorFraming_last_line [OF assms(1) a' tail]
  have "suffix ''-----END PGP MESSAGE-----'' tail"
    by simp
  then have "suffix ''-----END PGP MESSAGE-----'' c"
    unfolding c by (rule suffix_appendI)
  moreover from starts front have "prefix ''-----BEGIN PGP MESSAGE-----'' c"
    unfolding c by (meson prefix_order.trans prefix_prefix)
  ultimately show ?thesis using r by simp
qed

theorem armored_ciphertext_is_framed_witness:
  "armorFraming exampleLibrary
   \<and> Get armorRequest ''format'' = ''ascii-armor''
   \<and> fst (pathEncryptWrite exampleLibrary exampleBackend exampleStorage armorRequest)
     = Return (Some \<lparr>Data = [''ciphertext'' \<mapsto>
         ''-----BEGIN PGP MESSAGE-----\<newline>\<newline>[hello]\<newline>-----END PGP MESSAGE-----'']\<rparr>) None
   \<and> prefix ''-----BEGIN PGP MESSAGE-----''
         ''-----BEGIN PGP MESSAGE-----\<newline>\<newline>[hello]\<newline>-----END PGP MESSAGE-----''
   \<and> suffix ''-----END PGP MESSAGE-----''
         ''-----BEGIN PGP MESSAGE-----\<newline>\<newline>[hello]\<newline>-----END PGP MESSAGE-----''"
proof -
  have fmt: "Get armorRequest ''format'' = ''ascii-armor''"
    by (simp add: armorRequest_def requestData_def Get_def)
  from armored_ciphertext_is_framed [OF example_armorFraming fmt run_armorRequest]
  show ?thesis
    by (simp add: example_armorFraming fmt run_armorRequest)
qed

subsection \<open>C9: the second test of the error\<close>

text \<open>
  C9. The handler and the handler without the second \<^verbatim>\<open>if err != nil\<close> (line 110) are
  the same function: equal outcome, storage and calls on every input. The branch
  of that test would return \<^verbatim>\<open>(nil, err)\<close> before \<^verbatim>\<open>b.key\<close> is called; no run does:
  whenever the handler returns \<^verbatim>\<open>(nil, err)\<close>, it has called \<^verbatim>\<open>b.key\<close>.
\<close>

theorem second_err_check_unreachable:
  "pathEncryptWrite lib b s data = pathEncryptWrite_without_second_check lib b s data
   \<and> (\<forall>e. fst (pathEncryptWrite lib b s data) = Return None (Some e) \<longrightarrow>
         Called_key (Get data ''name'') \<in> set (snd (snd (pathEncryptWrite lib b s data))))"
proof
  show "pathEncryptWrite lib b s data = pathEncryptWrite_without_second_check lib b s data"
    by (simp add: pathEncryptWrite_def pathEncryptWrite_without_second_check_def Let_def
        split: prod.splits option.splits list.splits)
next
  show "\<forall>e. fst (pathEncryptWrite lib b s data) = Return None (Some e) \<longrightarrow>
         Called_key (Get data ''name'') \<in> set (snd (snd (pathEncryptWrite lib b s data)))"
  proof (intro allI impI)
    fix e
    assume ret: "fst (pathEncryptWrite lib b s data) = Return None (Some e)"
    obtain out s' log where run: "pathEncryptWrite lib b s data = (out, s', log)"
      by (cases "pathEncryptWrite lib b s data") auto
    with ret have "out = Return None (Some e)" by simp
    with run have "Called_key (Get data ''name'') \<in> set log"
      by (auto simp: pathEncryptWrite_def Let_def
          split: prod.splits option.splits list.splits if_splits
          dest: resolveAndEncrypt_key_called)
    with run show "Called_key (Get data ''name'') \<in> set (snd (snd (pathEncryptWrite lib b s data)))"
      by simp
  qed
qed

theorem second_err_check_unreachable_witness:
  "fst (pathEncryptWrite exampleLibrary exampleBackend failingStorage exampleRequest)
     = Return None (Some (Err ''storage unavailable''))
   \<and> Get exampleRequest ''name'' = ''alice''
   \<and> Called_key ''alice''
       \<in> set (snd (snd (pathEncryptWrite exampleLibrary exampleBackend failingStorage exampleRequest)))
   \<and> pathEncryptWrite_without_second_check exampleLibrary exampleBackend failingStorage exampleRequest
     = pathEncryptWrite exampleLibrary exampleBackend failingStorage exampleRequest"
proof -
  note unreachable =
    second_err_check_unreachable [of exampleLibrary exampleBackend failingStorage exampleRequest]
  have same: "pathEncryptWrite_without_second_check exampleLibrary exampleBackend failingStorage exampleRequest
      = pathEncryptWrite exampleLibrary exampleBackend failingStorage exampleRequest"
    using unreachable [THEN conjunct1] by simp
  have nm: "Get exampleRequest ''name'' = ''alice''"
    by (simp add: exampleRequest_def requestData_def Get_def)
  from unreachable [THEN conjunct2] nm same show ?thesis
    by (simp add: run_failingStorage)
qed

subsection \<open>C10: the storage is only read\<close>

text \<open>
  C10. The handler touches the storage only through \<^verbatim>\<open>b.key\<close>, which it calls at most
  once, with the name of the request: a run either leaves the storage as it was
  and has no storage operation, or leaves the storage and has the operations of
  that one call. With \<^verbatim>\<open>b.key\<close> the lookup of the KeyStore, every run, whatever its
  outcome, leaves the storage as it found it, and its storage operations are none
  or the one \<^verbatim>\<open>Get\<close> of the record of the named key.
\<close>

theorem storage_only_read:
  assumes "pathEncryptWrite lib b s data = (out, s', log)"
  shows "((s' = s \<and> storageOps log = [])
          \<or> (\<exists>r. backend_key b s (Get data ''name'') = (r, s', storageOps log)))
       \<and> (backend_key b = KeyStore_get \<longrightarrow>
            s' = s
            \<and> (storageOps log = [] \<or> storageOps log = [StorageGet (''keys/'' @ Get data ''name'')]))"
  using pathEncryptWrite_storage [OF assms]
  by (auto simp: KeyStore_get_def Let_def split: option.splits)

theorem storage_only_read_witness:
  "backend_key exampleBackend = KeyStore_get
   \<and> fst (snd (pathEncryptWrite exampleLibrary exampleBackend exampleStorage exampleRequest))
     = exampleStorage
   \<and> storageOps (snd (snd (pathEncryptWrite exampleLibrary exampleBackend exampleStorage exampleRequest)))
     = [StorageGet ''keys/alice'']
   \<and> storageOps (snd (snd (pathEncryptWrite exampleLibrary exampleBackend exampleStorage noRecipientRequest)))
     = []"
  using storage_only_read [OF run_exampleRequest] storage_only_read [OF run_noRecipientRequest]
  by (simp add: run_exampleRequest run_noRecipientRequest exampleBackend_simps)

end
